theory Spec2Isabelle
  imports Complex_Main
begin

section \<open>The timer time-accounting model of shinytimer\<close>

text \<open>
  The repository holds three implementations of the same widget:
  \<^item> the first variant, \<^verbatim>\<open>src/App.jsx\<close> lines 1 to 607 (suffix \<open>_v1\<close>): a per-second
    timer loop folds the running time into \<open>elapsedSec\<close>, adjustments go to \<open>revisionSec\<close>;
  \<^item> the second variant, \<^verbatim>\<open>src/App.jsx\<close> from line 609 (suffix \<open>_v2\<close>): timestamps are
    \<^verbatim>\<open>Date.now()\<close> in milliseconds, \<open>elapsedSec\<close> is in (fractional) seconds;
  \<^item> the third implementation, \<^verbatim>\<open>unnamed/part_000\<close> (suffix \<open>_v3\<close>): timestamps are whole
    seconds, \<^verbatim>\<open>Math.floor(Date.now()/1000)\<close>, and a polled \<open>nowSec\<close> drives the display.

  JavaScript numbers are modelled as exact numbers: \<open>int\<close> where the code only ever adds and
  subtracts whole seconds (first and third), \<open>rat\<close> where it divides by 1000 (second).
  Floating-point rounding is outside the model. The clock is a parameter \<open>now\<close> of every
  operation that reads it.
\<close>

subsection \<open>Timers\<close>

text \<open>
  The timer object. \<open>id\<close> is called \<open>ident\<close>; \<open>startTs\<close> is \<open>null\<close> or a number. The first
  variant's objects have no \<open>deleted\<close> field; no operation of it reads or writes the field.
\<close>

record 'n timer =
  ident :: string
  name :: string
  targetSec :: 'n
  revisionSec :: 'n
  elapsedSec :: 'n
  startTs :: "'n option"
  running :: bool
  goalOn :: bool
  goalFired :: bool
  category :: string
  color :: string
  sort_index :: nat
  deleted :: bool

text \<open>
  What \<^verbatim>\<open>setCelebration\<close> (first, third) and \<^verbatim>\<open>startCelebration\<close> (second) are called with:
  the name and the target of the timer that crossed its goal. \<open>cel_id\<close> records which timer
  it was, so that a run's celebrations can be told apart.
\<close>

record 'n celebration =
  cel_id :: string
  cel_name :: string
  cel_target :: 'n

subsection \<open>JavaScript idioms\<close>

text \<open>\<^verbatim>\<open>x || 0\<close> on a number: a falsy number is 0.\<close>

definition or0 :: "'n::zero \<Rightarrow> 'n" where
  "or0 x = (if x = 0 then 0 else x)"

text \<open>\<^verbatim>\<open>x || d\<close> on a number or \<open>null\<close>: \<open>null\<close> and 0 are falsy.\<close>

definition orElse :: "'n::zero option \<Rightarrow> 'n \<Rightarrow> 'n" where
  "orElse x d = (case x of None \<Rightarrow> d | Some v \<Rightarrow> if v = 0 then d else v)"

text \<open>The truth value of a number or \<open>null\<close> in a condition (\<^verbatim>\<open>t.startTs ? a : b\<close>).\<close>

definition truthy :: "'n::zero option \<Rightarrow> bool" where
  "truthy x = (case x of None \<Rightarrow> False | Some v \<Rightarrow> v \<noteq> 0)"

text \<open>
  \<^verbatim>\<open>fmtHMS\<close> on a whole number of seconds: hours, minutes and seconds. The rendering of the
  three numbers as two-digit text is presentation and is not modelled.
\<close>

definition fmtHMS :: "int \<Rightarrow> int \<times> int \<times> int" where
  "fmtHMS sec =
    (let s = max 0 sec;
         h = s div 3600;
         m = (s mod 3600) div 60;
         ss = s mod 60
     in (h, m, ss))"

text \<open>
  A cell of the exported table: a text, a number, or a formatted time. Turning cells into
  quoted text and the download are presentation and are not modelled.
\<close>

datatype 'n cell = CStr string | CNum 'n | CTime "int \<times> int \<times> int"

subsection \<open>Third implementation (\<^verbatim>\<open>unnamed/part_000\<close>)\<close>

text \<open>\<^verbatim>\<open>DEFAULT_TIMERS\<close>; \<open>uid k\<close> is the k-th identifier that \<^verbatim>\<open>uid()\<close> returned.\<close>

definition DEFAULT_TIMERS_v3 :: "(nat \<Rightarrow> string) \<Rightarrow> int timer list" where
  "DEFAULT_TIMERS_v3 uid =
    [\<lparr>ident = uid 0, name = ''Working Hour'', targetSec = 11 * 3600, revisionSec = 0,
      elapsedSec = 0, startTs = None, running = False, goalOn = True, goalFired = False,
      category = ''work'', color = ''from-slate-400/20 to-slate-600/20'', sort_index = 0,
      deleted = False\<rparr>,
     \<lparr>ident = uid 1, name = ''Music'', targetSec = 0 * 3600 + 60, revisionSec = 0,
      elapsedSec = 0, startTs = None, running = False, goalOn = True, goalFired = False,
      category = ''neutral'', color = ''from-rose-400/20 to-rose-600/20'', sort_index = 1,
      deleted = False\<rparr>,
     \<lparr>ident = uid 2, name = ''Exercise'', targetSec = 1 * 3600, revisionSec = 0,
      elapsedSec = 0, startTs = None, running = False, goalOn = False, goalFired = False,
      category = ''neutral'', color = ''from-emerald-400/20 to-green-600/20'', sort_index = 2,
      deleted = False\<rparr>,
     \<lparr>ident = uid 3, name = ''Learning'', targetSec = 2 * 3600, revisionSec = 0,
      elapsedSec = 0, startTs = None, running = False, goalOn = False, goalFired = False,
      category = ''work'', color = ''from-cyan-400/20 to-blue-600/20'', sort_index = 3,
      deleted = False\<rparr>,
     \<lparr>ident = uid 4, name = ''Break Time'', targetSec = 28 * 60, revisionSec = 0,
      elapsedSec = 0, startTs = None, running = False, goalOn = True, goalFired = False,
      category = ''break'', color = ''from-amber-400/20 to-orange-600/20'', sort_index = 4,
      deleted = False\<rparr>,
     \<lparr>ident = uid 5, name = ''Sleeping'', targetSec = 6 * 3600, revisionSec = 0,
      elapsedSec = 0, startTs = None, running = False, goalOn = True, goalFired = False,
      category = ''neutral'', color = ''from-purple-400/20 to-violet-700/20'', sort_index = 5,
      deleted = False\<rparr>]"

text \<open>
  The goal-crossing effect, run whenever the polled \<open>nowSec\<close> changes: the callback of
  \<^verbatim>\<open>prev.map\<close>, returning the timer and the celebration it raised, if any.
\<close>

definition goalCheck_v3_step :: "int \<Rightarrow> int timer \<Rightarrow> int timer \<times> int celebration option" where
  "goalCheck_v3_step nowSec t =
    (if \<not> goalOn t \<or> goalFired t \<or> targetSec t = 0 then (t, None)
     else
       let runExtra = (if running t \<and> startTs t \<noteq> None then nowSec - the (startTs t) else 0);
           net = max 0 ((elapsedSec t + runExtra) - or0 (revisionSec t))
       in if net \<ge> targetSec t
          then (t\<lparr>goalFired := True\<rparr>,
                Some \<lparr>cel_id = ident t, cel_name = name t, cel_target = targetSec t\<rparr>)
          else (t, None))"

definition goalCheck_v3 :: "int \<Rightarrow> int timer list \<Rightarrow> int timer list \<times> int celebration list" where
  "goalCheck_v3 nowSec prev =
    (map (\<lambda>t. fst (goalCheck_v3_step nowSec t)) prev,
     List.map_filter (\<lambda>t. snd (goalCheck_v3_step nowSec t)) prev)"

definition startTimer_v3_step :: "string \<Rightarrow> int \<Rightarrow> int timer \<Rightarrow> int timer" where
  "startTimer_v3_step i now t =
    (if ident t = i then
       (if running t then t else t\<lparr>running := True, startTs := Some now\<rparr>)
     else if running t then
       (let extra = now - orElse (startTs t) now
        in t\<lparr>running := False, startTs := None, elapsedSec := elapsedSec t + extra\<rparr>)
     else t)"

definition startTimer_v3 :: "string \<Rightarrow> int \<Rightarrow> int timer list \<Rightarrow> int timer list" where
  "startTimer_v3 i now prev = map (startTimer_v3_step i now) prev"

definition pauseTimer_v3_step :: "string \<Rightarrow> int \<Rightarrow> int timer \<Rightarrow> int timer" where
  "pauseTimer_v3_step i now t =
    (if ident t \<noteq> i \<or> \<not> running t then t
     else
       let extra = now - orElse (startTs t) now
       in t\<lparr>running := False, startTs := None, elapsedSec := elapsedSec t + extra\<rparr>)"

definition pauseTimer_v3 :: "string \<Rightarrow> int \<Rightarrow> int timer list \<Rightarrow> int timer list" where
  "pauseTimer_v3 i now prev = map (pauseTimer_v3_step i now) prev"

text \<open>
  The object that \<^verbatim>\<open>resetTimer\<close> and \<^verbatim>\<open>resetDay\<close> build. The three implementations have
  the same \<^verbatim>\<open>resetTimer\<close>, \<^verbatim>\<open>resetDay\<close> and local \<^verbatim>\<open>removeTimer\<close>, modelled once.
\<close>

definition reset_fields :: "'n::zero timer \<Rightarrow> 'n timer" where
  "reset_fields t =
    t\<lparr>running := False, startTs := None, elapsedSec := 0, revisionSec := 0, goalFired := False\<rparr>"

definition resetTimer :: "string \<Rightarrow> 'n::zero timer list \<Rightarrow> 'n timer list" where
  "resetTimer i prev = map (\<lambda>t. if ident t = i then reset_fields t else t) prev"

text \<open>The local part of \<^verbatim>\<open>removeTimer\<close>; the request to the server is not modelled.\<close>

definition removeTimer :: "string \<Rightarrow> 'n timer list \<Rightarrow> 'n timer list" where
  "removeTimer i prev = filter (\<lambda>t. ident t \<noteq> i) prev"

text \<open>\<^verbatim>\<open>addTimer\<close>; \<open>newId\<close> is what \<^verbatim>\<open>uid()\<close> returned.\<close>

definition addTimer_v3 :: "string \<Rightarrow> int timer list \<Rightarrow> int timer list" where
  "addTimer_v3 newId timers =
    (let n = \<lparr>ident = newId, name = ''New Timer'', targetSec = 0, revisionSec = 0,
              elapsedSec = 0, startTs = None, running = False, goalOn = False,
              goalFired = False, category = ''neutral'',
              color = ''from-slate-400/20 to-slate-700/20'', sort_index = length timers,
              deleted = False\<rparr>
     in timers @ [n])"

definition adjustTimer_v3_step :: "string \<Rightarrow> int \<Rightarrow> int \<Rightarrow> int timer \<Rightarrow> int timer" where
  "adjustTimer_v3_step i deltaSec now t =
    (if ident t \<noteq> i then t
     else
       let elapsed = elapsedSec t
       in if running t \<and> startTs t \<noteq> None then
            (let elapsed = elapsed + (now - the (startTs t))
             in t\<lparr>elapsedSec := max 0 (elapsed + deltaSec), startTs := Some now\<rparr>)
          else t\<lparr>elapsedSec := max 0 (elapsed + deltaSec)\<rparr>)"

definition adjustTimer_v3 :: "string \<Rightarrow> int \<Rightarrow> int \<Rightarrow> int timer list \<Rightarrow> int timer list" where
  "adjustTimer_v3 i deltaSec now prev = map (adjustTimer_v3_step i deltaSec now) prev"

text \<open>
  The five setters \<^verbatim>\<open>setTheme\<close>, \<^verbatim>\<open>setTarget\<close>, \<^verbatim>\<open>setName\<close>, \<^verbatim>\<open>setGoal\<close>, \<^verbatim>\<open>setCategory\<close>;
  the first variant has the same five.
\<close>

definition setTheme :: "string \<Rightarrow> string \<Rightarrow> 'n timer list \<Rightarrow> 'n timer list" where
  "setTheme i cls prev = map (\<lambda>t. if ident t = i then t\<lparr>color := cls\<rparr> else t) prev"

definition setTarget :: "string \<Rightarrow> 'n \<Rightarrow> 'n timer list \<Rightarrow> 'n timer list" where
  "setTarget i sec prev = map (\<lambda>t. if ident t = i then t\<lparr>targetSec := sec\<rparr> else t) prev"

definition setName :: "string \<Rightarrow> string \<Rightarrow> 'n timer list \<Rightarrow> 'n timer list" where
  "setName i nm prev = map (\<lambda>t. if ident t = i then t\<lparr>name := nm\<rparr> else t) prev"

definition setGoal :: "string \<Rightarrow> bool \<Rightarrow> 'n timer list \<Rightarrow> 'n timer list" where
  "setGoal i on prev = map (\<lambda>t. if ident t = i then t\<lparr>goalOn := on\<rparr> else t) prev"

definition setCategory :: "string \<Rightarrow> string \<Rightarrow> 'n timer list \<Rightarrow> 'n timer list" where
  "setCategory i c prev = map (\<lambda>t. if ident t = i then t\<lparr>category := c\<rparr> else t) prev"

text \<open>\<^verbatim>\<open>resetDay\<close>, called \<^verbatim>\<open>resetAll\<close> in the second variant.\<close>

definition resetDay :: "'n::zero timer list \<Rightarrow> 'n timer list" where
  "resetDay prev = map reset_fields prev"

text \<open>\<^verbatim>\<open>exportCSV\<close>: the header row and one row per timer, computed with the polled \<open>nowSec\<close>.\<close>

definition exportCSV_v3 :: "int \<Rightarrow> int timer list \<Rightarrow> int cell list list" where
  "exportCSV_v3 nowSec timers =
    [CStr ''Name'', CStr ''Seconds'', CStr ''Time''] #
    map (\<lambda>t.
      let runExtra = (if running t \<and> startTs t \<noteq> None then nowSec - the (startTs t) else 0);
          net = max 0 ((elapsedSec t + runExtra) - or0 (revisionSec t))
      in [CStr (name t), CNum net, CTime (fmtHMS net)]) timers"

text \<open>
  \<^verbatim>\<open>totals\<close>: the loop over the timers, adding each net to the total \<open>tot\<close> and storing it in the
  map \<open>nets\<close> under the timer's id (a later timer with the same id overwrites).
\<close>

fun totals_loop_v3 ::
  "int \<Rightarrow> int timer list \<Rightarrow> int \<times> (string \<rightharpoonup> int) \<Rightarrow> int \<times> (string \<rightharpoonup> int)" where
  "totals_loop_v3 nowSec [] acc = acc"
| "totals_loop_v3 nowSec (t # ts) (tot, nets) =
    (let runExtra = (if running t \<and> startTs t \<noteq> None then nowSec - the (startTs t) else 0);
         net = max 0 ((elapsedSec t + runExtra) - or0 (revisionSec t))
     in totals_loop_v3 nowSec ts (tot + net, nets(ident t \<mapsto> net)))"

definition totals_v3 :: "int \<Rightarrow> int timer list \<Rightarrow> (int \<times> int \<times> int) \<times> (string \<rightharpoonup> int)" where
  "totals_v3 nowSec timers =
    (let (tot, nets) = totals_loop_v3 nowSec timers (0, Map.empty)
     in (fmtHMS tot, nets))"

text \<open>What a card is given as \<open>netSeconds\<close>: \<^verbatim>\<open>totals.nets.get(t.id) || 0\<close>.\<close>

definition cardNet_v3 :: "int \<Rightarrow> int timer list \<Rightarrow> int timer \<Rightarrow> int" where
  "cardNet_v3 nowSec timers t = orElse (snd (totals_v3 nowSec timers) (ident t)) 0"


subsection \<open>First variant (\<^verbatim>\<open>src/App.jsx\<close>, lines 1 to 607)\<close>

text \<open>\<^verbatim>\<open>DEFAULT_TIMERS\<close>: the six objects of the third implementation, without \<open>deleted\<close>.\<close>

definition DEFAULT_TIMERS_v1 :: "(nat \<Rightarrow> string) \<Rightarrow> int timer list" where
  "DEFAULT_TIMERS_v1 uid = DEFAULT_TIMERS_v3 uid"

text \<open>
  The timer loop, run every second: the callback of \<^verbatim>\<open>prev.map\<close>. It adds the whole run
  since \<open>startTs\<close> to \<open>elapsedSec\<close> and leaves \<open>startTs\<close> as it is.
\<close>

definition timerLoop_v1_step :: "int \<Rightarrow> int timer \<Rightarrow> int timer \<times> int celebration option" where
  "timerLoop_v1_step now t =
    (if \<not> running t \<or> startTs t = None then (t, None)
     else
       let elapsed = elapsedSec t + (now - the (startTs t));
           net = max 0 (elapsed - or0 (revisionSec t))
       in if goalOn t \<and> \<not> goalFired t \<and> targetSec t > 0 \<and> net \<ge> targetSec t
          then (t\<lparr>goalFired := True, elapsedSec := elapsed\<rparr>,
                Some \<lparr>cel_id = ident t, cel_name = name t, cel_target = targetSec t\<rparr>)
          else (t\<lparr>elapsedSec := elapsed\<rparr>, None))"

definition timerLoop_v1 :: "int \<Rightarrow> int timer list \<Rightarrow> int timer list \<times> int celebration list" where
  "timerLoop_v1 now prev =
    (map (\<lambda>t. fst (timerLoop_v1_step now t)) prev,
     List.map_filter (\<lambda>t. snd (timerLoop_v1_step now t)) prev)"

definition startTimer_v1_step :: "string \<Rightarrow> int \<Rightarrow> int timer \<Rightarrow> int timer" where
  "startTimer_v1_step i now t =
    (if ident t = i then (if running t then t else t\<lparr>running := True, startTs := Some now\<rparr>)
     else t)"

definition startTimer_v1 :: "string \<Rightarrow> int \<Rightarrow> int timer list \<Rightarrow> int timer list" where
  "startTimer_v1 i now prev = map (startTimer_v1_step i now) prev"

definition pauseTimer_v1_step :: "string \<Rightarrow> int \<Rightarrow> int timer \<Rightarrow> int timer" where
  "pauseTimer_v1_step i now t =
    (if ident t \<noteq> i \<or> \<not> running t then t
     else
       let extra = now - orElse (startTs t) now
       in t\<lparr>running := False, startTs := None, elapsedSec := elapsedSec t + extra\<rparr>)"

definition pauseTimer_v1 :: "string \<Rightarrow> int \<Rightarrow> int timer list \<Rightarrow> int timer list" where
  "pauseTimer_v1 i now prev = map (pauseTimer_v1_step i now) prev"

definition addTimer_v1 :: "string \<Rightarrow> int timer list \<Rightarrow> int timer list" where
  "addTimer_v1 newId timers =
    (let n = \<lparr>ident = newId, name = ''New Timer'', targetSec = 0, revisionSec = 0,
              elapsedSec = 0, startTs = None, running = False, goalOn = False,
              goalFired = False, category = ''neutral'',
              color = ''from-slate-400/20 to-slate-700/20'', sort_index = length timers,
              deleted = False\<rparr>
     in timers @ [n])"

text \<open>\<^verbatim>\<open>adjustTimer\<close>: the adjustment goes to \<open>revisionSec\<close>, with the sign inverted.\<close>

definition adjustTimer_v1_step :: "string \<Rightarrow> int \<Rightarrow> int timer \<Rightarrow> int timer" where
  "adjustTimer_v1_step i deltaSec t =
    (if ident t = i then t\<lparr>revisionSec := max 0 (or0 (revisionSec t) - deltaSec)\<rparr> else t)"

definition adjustTimer_v1 :: "string \<Rightarrow> int \<Rightarrow> int timer list \<Rightarrow> int timer list" where
  "adjustTimer_v1 i deltaSec prev = map (adjustTimer_v1_step i deltaSec) prev"

definition exportCSV_v1 :: "int timer list \<Rightarrow> int cell list list" where
  "exportCSV_v1 timers =
    [CStr ''Name'', CStr ''Seconds'', CStr ''Time''] #
    map (\<lambda>t.
      let net = max 0 (or0 (elapsedSec t) - or0 (revisionSec t))
      in [CStr (name t), CNum net, CTime (fmtHMS net)]) timers"

text \<open>\<^verbatim>\<open>totalTracked\<close>: \<^verbatim>\<open>timers.reduce\<close> from 0, formatted.\<close>

definition totalTracked_v1 :: "int timer list \<Rightarrow> int \<times> int \<times> int" where
  "totalTracked_v1 timers =
    fmtHMS (foldl (\<lambda>a t. a + max 0 (or0 (elapsedSec t) - or0 (revisionSec t))) 0 timers)"

text \<open>The \<open>netSeconds\<close> a card is given.\<close>

definition netSeconds_v1 :: "int timer \<Rightarrow> int" where
  "netSeconds_v1 t = max 0 (or0 (elapsedSec t) - or0 (revisionSec t))"

subsection \<open>Second variant (\<^verbatim>\<open>src/App.jsx\<close>, from line 609)\<close>

text \<open>Here \<open>now\<close> and \<open>startTs\<close> are milliseconds; \<open>elapsedSec\<close>, the targets and nets are seconds.\<close>

definition DEFAULT_TIMERS_v2 :: "(nat \<Rightarrow> string) \<Rightarrow> rat timer list" where
  "DEFAULT_TIMERS_v2 uid =
    [\<lparr>ident = uid 0, name = ''Working Hour'', targetSec = 11 * 3600, revisionSec = 0,
      elapsedSec = 0, startTs = None, running = False, goalOn = True, goalFired = False,
      category = ''work'', color = ''from-cyan-500/30 to-blue-500/30'', sort_index = 0,
      deleted = False\<rparr>]"

definition timerNetSeconds :: "rat \<Rightarrow> rat timer \<Rightarrow> rat" where
  "timerNetSeconds now t =
    (let runningNow = (if running t \<and> truthy (startTs t) then (now - the (startTs t)) / 1000 else 0)
     in max 0 ((elapsedSec t + runningNow) - or0 (revisionSec t)))"

text \<open>The goal checker, run every second: the callback of \<^verbatim>\<open>prev.map\<close>.\<close>

definition goalChecker_v2_step :: "rat \<Rightarrow> rat timer \<Rightarrow> rat timer \<times> rat celebration option" where
  "goalChecker_v2_step now t =
    (let net = timerNetSeconds now t
     in if goalOn t \<and> \<not> goalFired t \<and> targetSec t > 0 \<and> net \<ge> targetSec t
        then (t\<lparr>goalFired := True\<rparr>,
              Some \<lparr>cel_id = ident t, cel_name = name t, cel_target = targetSec t\<rparr>)
        else (t, None))"

definition goalChecker_v2 :: "rat \<Rightarrow> rat timer list \<Rightarrow> rat timer list \<times> rat celebration list" where
  "goalChecker_v2 now prev =
    (map (\<lambda>t. fst (goalChecker_v2_step now t)) prev,
     List.map_filter (\<lambda>t. snd (goalChecker_v2_step now t)) prev)"

definition startTimer_v2_step :: "string \<Rightarrow> rat \<Rightarrow> rat timer \<Rightarrow> rat timer" where
  "startTimer_v2_step i now t =
    (if ident t = i then
       (if running t then t else t\<lparr>running := True, startTs := Some now\<rparr>)
     else if running t then
       (let add = (if truthy (startTs t) then (now - the (startTs t)) / 1000 else 0)
        in t\<lparr>running := False, startTs := None, elapsedSec := max 0 (elapsedSec t + add)\<rparr>)
     else t)"

definition startTimer_v2 :: "string \<Rightarrow> rat \<Rightarrow> rat timer list \<Rightarrow> rat timer list" where
  "startTimer_v2 i now prev = map (startTimer_v2_step i now) prev"

definition pauseTimer_v2_step :: "string \<Rightarrow> rat \<Rightarrow> rat timer \<Rightarrow> rat timer" where
  "pauseTimer_v2_step i now t =
    (if ident t \<noteq> i then t
     else if \<not> running t then t
     else
       let add = (if truthy (startTs t) then (now - the (startTs t)) / 1000 else 0)
       in t\<lparr>running := False, startTs := None, elapsedSec := max 0 (elapsedSec t + add)\<rparr>)"

definition pauseTimer_v2 :: "string \<Rightarrow> rat \<Rightarrow> rat timer list \<Rightarrow> rat timer list" where
  "pauseTimer_v2 i now prev = map (pauseTimer_v2_step i now) prev"

definition adjustTimer_v2_step :: "string \<Rightarrow> rat \<Rightarrow> rat \<Rightarrow> rat timer \<Rightarrow> rat timer" where
  "adjustTimer_v2_step i deltaSeconds now t =
    (if ident t \<noteq> i then t
     else if running t then
       (let add = (if truthy (startTs t) then (now - the (startTs t)) / 1000 else 0);
            newElapsed = max 0 (elapsedSec t + add + deltaSeconds)
        in t\<lparr>elapsedSec := newElapsed, startTs := Some now\<rparr>)
     else
       (let newElapsed = max 0 (elapsedSec t + deltaSeconds)
        in t\<lparr>elapsedSec := newElapsed\<rparr>))"

definition adjustTimer_v2 :: "string \<Rightarrow> rat \<Rightarrow> rat \<Rightarrow> rat timer list \<Rightarrow> rat timer list" where
  "adjustTimer_v2 i deltaSeconds now prev = map (adjustTimer_v2_step i deltaSeconds now) prev"

text \<open>
  \<^verbatim>\<open>applyPatch\<close>, \<^verbatim>\<open>{ ...t, ...patch }\<close>. Its one caller, the editor's save, passes a copy of
  the whole timer object as it was when the editor opened, with the edited fields changed;
  so every field of \<open>t\<close> is overwritten and the result is the patch.
\<close>

definition applyPatch :: "string \<Rightarrow> rat timer \<Rightarrow> rat timer list \<Rightarrow> rat timer list" where
  "applyPatch i patch prev = map (\<lambda>t. if ident t = i then patch else t) prev"

text \<open>
  The editor of the second variant. It is opened on a timer object (\<^verbatim>\<open>setEditTimer(t)\<close>) and
  keeps a copy of the whole object as its \<open>form\<close> (\<^verbatim>\<open>useState({ ...timer })\<close>); the user
  changes fields of the form and the two target inputs. \<^verbatim>\<open>save\<close> builds the patch
  \<^verbatim>\<open>{ ...form, targetSec: tSec }\<close> that \<^verbatim>\<open>applyPatch\<close> is called with.
\<close>

definition clamp :: "'n::linorder \<Rightarrow> 'n \<Rightarrow> 'n \<Rightarrow> 'n" where
  "clamp n a b = max a (min b n)"

definition TimerEditor_save :: "rat timer \<Rightarrow> rat \<Rightarrow> rat \<Rightarrow> rat timer" where
  "TimerEditor_save form targetH targetM =
    (let tSec = clamp (targetH * 3600 + targetM * 60) 0 (999 * 3600)
     in form\<lparr>targetSec := tSec\<rparr>)"

text \<open>\<^verbatim>\<open>addTimer\<close> puts the new timer first.\<close>

definition addTimer_v2 :: "string \<Rightarrow> rat timer list \<Rightarrow> rat timer list" where
  "addTimer_v2 newId timers =
    (let t = \<lparr>ident = newId, name = ''New Timer'', targetSec = 0, revisionSec = 0,
              elapsedSec = 0, startTs = None, running = False, goalOn = False,
              goalFired = False, category = ''neutral'',
              color = ''from-violet-500/30 to-fuchsia-500/30'', sort_index = length timers,
              deleted = False\<rparr>
     in t # timers)"

definition exportCSV_v2 :: "rat \<Rightarrow> rat timer list \<Rightarrow> rat cell list list" where
  "exportCSV_v2 now timers =
    (let rows = [[CStr ''id'', CStr ''name'', CStr ''category'', CStr ''targetSec'',
                  CStr ''elapsedSec'', CStr ''revisionSec'', CStr ''running'', CStr ''startTs'',
                  CStr ''goalOn'', CStr ''goalFired'', CStr ''color'', CStr ''netSec'',
                  CStr ''human'']];
         data = map (\<lambda>t.
           let runningNow =
                 (if running t \<and> truthy (startTs t) then (now - the (startTs t)) / 1000 else 0);
               net = max 0 ((elapsedSec t + runningNow) - or0 (revisionSec t))
           in [CStr (ident t), CStr (name t), CStr (category t), CNum (targetSec t),
               CNum (of_int \<lfloor>elapsedSec t\<rfloor>), CNum (of_int \<lfloor>or0 (revisionSec t)\<rfloor>),
               CNum (if running t then 1 else 0),
               (if truthy (startTs t) then CNum (the (startTs t)) else CStr []),
               CNum (if goalOn t then 1 else 0), CNum (if goalFired t then 1 else 0),
               CStr (color t), CNum (of_int \<lfloor>net\<rfloor>), CTime (fmtHMS \<lfloor>net\<rfloor>)]) timers
     in rows @ data)"

text \<open>\<^verbatim>\<open>totalTracked\<close>: \<^verbatim>\<open>timers.reduce\<close> from 0.\<close>

definition totalTracked_v2 :: "rat \<Rightarrow> rat timer list \<Rightarrow> rat" where
  "totalTracked_v2 now timers = foldl (\<lambda>a t. a + timerNetSeconds now t) 0 timers"

subsection \<open>Runs of operations\<close>

text \<open>
  The local operations of the first and the third implementation, and of the second. An
  operation is applied to the timer list at a clock reading; \<open>Tick\<close> is the per-second
  callback (the timer loop of the first variant, the goal check of the other two). An
  operation returns the new list and the celebrations it raised.
\<close>

datatype 'n action =
    StartTimer string
  | PauseTimer string
  | ResetTimer string
  | RemoveTimer string
  | AddTimer string
  | AdjustTimer string 'n
  | SetTheme string string
  | SetTarget string 'n
  | SetName string string
  | SetGoal string bool
  | SetCategory string string
  | ResetDay
  | Tick

datatype action_v2 =
    StartTimer2 string
  | PauseTimer2 string
  | ResetTimer2 string
  | ResetAll2
  | AdjustTimer2 string rat
  | ApplyPatch2 string "rat timer"
  | AddTimer2 string
  | RemoveTimer2 string
  | Tick2

fun step_v1 :: "int \<Rightarrow> int action \<Rightarrow> int timer list \<Rightarrow> int timer list \<times> int celebration list" where
  "step_v1 now (StartTimer i) ts = (startTimer_v1 i now ts, [])"
| "step_v1 now (PauseTimer i) ts = (pauseTimer_v1 i now ts, [])"
| "step_v1 now (ResetTimer i) ts = (resetTimer i ts, [])"
| "step_v1 now (RemoveTimer i) ts = (removeTimer i ts, [])"
| "step_v1 now (AddTimer i) ts = (addTimer_v1 i ts, [])"
| "step_v1 now (AdjustTimer i d) ts = (adjustTimer_v1 i d ts, [])"
| "step_v1 now (SetTheme i c) ts = (setTheme i c ts, [])"
| "step_v1 now (SetTarget i s) ts = (setTarget i s ts, [])"
| "step_v1 now (SetName i n) ts = (setName i n ts, [])"
| "step_v1 now (SetGoal i b) ts = (setGoal i b ts, [])"
| "step_v1 now (SetCategory i c) ts = (setCategory i c ts, [])"
| "step_v1 now ResetDay ts = (resetDay ts, [])"
| "step_v1 now Tick ts = timerLoop_v1 now ts"

fun step_v2 :: "rat \<Rightarrow> action_v2 \<Rightarrow> rat timer list \<Rightarrow> rat timer list \<times> rat celebration list" where
  "step_v2 now (StartTimer2 i) ts = (startTimer_v2 i now ts, [])"
| "step_v2 now (PauseTimer2 i) ts = (pauseTimer_v2 i now ts, [])"
| "step_v2 now (ResetTimer2 i) ts = (resetTimer i ts, [])"
| "step_v2 now ResetAll2 ts = (resetDay ts, [])"
| "step_v2 now (AdjustTimer2 i d) ts = (adjustTimer_v2 i d now ts, [])"
| "step_v2 now (ApplyPatch2 i p) ts = (applyPatch i p ts, [])"
| "step_v2 now (AddTimer2 i) ts = (addTimer_v2 i ts, [])"
| "step_v2 now (RemoveTimer2 i) ts = (removeTimer i ts, [])"
| "step_v2 now Tick2 ts = goalChecker_v2 now ts"

fun step_v3 :: "int \<Rightarrow> int action \<Rightarrow> int timer list \<Rightarrow> int timer list \<times> int celebration list" where
  "step_v3 now (StartTimer i) ts = (startTimer_v3 i now ts, [])"
| "step_v3 now (PauseTimer i) ts = (pauseTimer_v3 i now ts, [])"
| "step_v3 now (ResetTimer i) ts = (resetTimer i ts, [])"
| "step_v3 now (RemoveTimer i) ts = (removeTimer i ts, [])"
| "step_v3 now (AddTimer i) ts = (addTimer_v3 i ts, [])"
| "step_v3 now (AdjustTimer i d) ts = (adjustTimer_v3 i d now ts, [])"
| "step_v3 now (SetTheme i c) ts = (setTheme i c ts, [])"
| "step_v3 now (SetTarget i s) ts = (setTarget i s ts, [])"
| "step_v3 now (SetName i n) ts = (setName i n ts, [])"
| "step_v3 now (SetGoal i b) ts = (setGoal i b ts, [])"
| "step_v3 now (SetCategory i c) ts = (setCategory i c ts, [])"
| "step_v3 now ResetDay ts = (resetDay ts, [])"
| "step_v3 now Tick ts = goalCheck_v3 now ts"

text \<open>A run: the operations in order, each at its clock reading, collecting the celebrations.\<close>

fun run :: "('t \<Rightarrow> 'a \<Rightarrow> 's \<Rightarrow> 's \<times> 'c list) \<Rightarrow> ('t \<times> 'a) list \<Rightarrow> 's \<Rightarrow> 's \<times> 'c list" where
  "run step [] s = (s, [])"
| "run step ((now, a) # evs) s =
    (let (s', cs) = step now a s;
         (s'', cs') = run step evs s'
     in (s'', cs @ cs'))"

subsection \<open>The specification's words\<close>

text \<open>
  The net elapsed time as the specification writes it:
  \<open>max(0, accumulatedSeconds + (isRunning ? now - startTimestamp : 0) - revisionSeconds)\<close>,
  the running term counted when the timer is running with a non-null start timestamp.
  \<open>net_formula\<close> has \<open>now\<close> and \<open>startTs\<close> in seconds; \<open>net_formula_ms\<close> has them in
  milliseconds, as the second variant keeps them, and converts the difference to seconds.
\<close>

definition net_formula :: "'n::linordered_idom \<Rightarrow> 'n timer \<Rightarrow> 'n" where
  "net_formula now t =
    max 0 (elapsedSec t
           + (if running t \<and> startTs t \<noteq> None then now - the (startTs t) else 0)
           - revisionSec t)"

definition net_formula_ms :: "rat \<Rightarrow> rat timer \<Rightarrow> rat" where
  "net_formula_ms now t =
    max 0 (elapsedSec t
           + (if running t \<and> startTs t \<noteq> None then (now - the (startTs t)) / 1000 else 0)
           - revisionSec t)"

text \<open>A timer is consistent when it is running exactly when it has a start timestamp.\<close>

definition consistent :: "'n timer \<Rightarrow> bool" where
  "consistent t = (running t = (startTs t \<noteq> None))"

text \<open>
  The clock readings a timer can hold at clock reading \<open>now\<close>: a start timestamp is a
  reading of the clock (after 1970, so not 0) that is not later than \<open>now\<close>.
\<close>

definition started_by :: "'n::linordered_idom \<Rightarrow> 'n timer \<Rightarrow> bool" where
  "started_by now t = (case startTs t of None \<Rightarrow> True | Some s \<Rightarrow> 0 < s \<and> s \<le> now)"

text \<open>
  The operations that leave the goal flag of the timers called \<open>i\<close> alone: every operation
  but the reset of \<open>i\<close>, the reset of all timers, and the creation of a timer under the
  identifier \<open>i\<close>; in the second variant, also not the editor's save of a copy of \<open>i\<close> taken
  before its goal fired.
\<close>

fun keeps_fired :: "string \<Rightarrow> 'n action \<Rightarrow> bool" where
  "keeps_fired i (ResetTimer j) = (j \<noteq> i)"
| "keeps_fired i ResetDay = False"
| "keeps_fired i (AddTimer j) = (j \<noteq> i)"
| "keeps_fired i _ = True"

fun keeps_fired_v2 :: "string \<Rightarrow> action_v2 \<Rightarrow> bool" where
  "keeps_fired_v2 i (ResetTimer2 j) = (j \<noteq> i)"
| "keeps_fired_v2 i ResetAll2 = False"
| "keeps_fired_v2 i (AddTimer2 j) = (j \<noteq> i)"
| "keeps_fired_v2 i (ApplyPatch2 j p) = (ident p \<noteq> i \<or> goalFired p)"
| "keeps_fired_v2 i _ = True"

text \<open>
  The operations under which a timer only accumulates time: start, pause and the
  per-second tick (and the setters, which touch no time field). Adjusting, resetting,
  removing and, in the second variant, the editor's save are not among them; adding a
  timer is not either, since it moves the others in the list of the second variant.
\<close>

fun accumulating :: "'n action \<Rightarrow> bool" where
  "accumulating (StartTimer i) = True"
| "accumulating (PauseTimer i) = True"
| "accumulating Tick = True"
| "accumulating (SetTheme i c) = True"
| "accumulating (SetTarget i s) = True"
| "accumulating (SetName i n) = True"
| "accumulating (SetGoal i b) = True"
| "accumulating (SetCategory i c) = True"
| "accumulating _ = False"

fun accumulating_v2 :: "action_v2 \<Rightarrow> bool" where
  "accumulating_v2 (StartTimer2 i) = True"
| "accumulating_v2 (PauseTimer2 i) = True"
| "accumulating_v2 Tick2 = True"
| "accumulating_v2 _ = False"

text \<open>A list of clock readings with operations in which every operation is the tick.\<close>

definition ticks_only :: "('t \<times> 'n action) list \<Rightarrow> bool" where
  "ticks_only evs = list_all (\<lambda>e. snd e = Tick) evs"

definition ticks_only_v2 :: "('t \<times> action_v2) list \<Rightarrow> bool" where
  "ticks_only_v2 evs = list_all (\<lambda>e. snd e = Tick2) evs"

text \<open>The editor's save is harmless to consistency when the saved copy is consistent.\<close>

fun patch_consistent :: "action_v2 \<Rightarrow> bool" where
  "patch_consistent (ApplyPatch2 j p) = consistent p"
| "patch_consistent _ = True"

section \<open>Basic facts\<close>

lemma or0_id [simp]: "or0 x = x"
  by (simp add: or0_def)

lemma orElse_simps [simp]:
  "orElse None d = d"
  "s \<noteq> 0 \<Longrightarrow> orElse (Some s) d = s"
  by (simp_all add: orElse_def)

lemma truthy_simps [simp]:
  "truthy None = False"
  "truthy (Some s) = (s \<noteq> 0)"
  by (simp_all add: truthy_def)

lemmas list_ops =
  startTimer_v1_def pauseTimer_v1_def adjustTimer_v1_def addTimer_v1_def timerLoop_v1_def
  startTimer_v2_def pauseTimer_v2_def adjustTimer_v2_def addTimer_v2_def goalChecker_v2_def
  applyPatch_def
  startTimer_v3_def pauseTimer_v3_def adjustTimer_v3_def addTimer_v3_def goalCheck_v3_def
  resetTimer_def resetDay_def removeTimer_def
  setTheme_def setTarget_def setName_def setGoal_def setCategory_def

lemmas timer_steps =
  startTimer_v1_step_def pauseTimer_v1_step_def adjustTimer_v1_step_def timerLoop_v1_step_def
  startTimer_v2_step_def pauseTimer_v2_step_def adjustTimer_v2_step_def goalChecker_v2_step_def
  startTimer_v3_step_def pauseTimer_v3_step_def adjustTimer_v3_step_def goalCheck_v3_step_def
  reset_fields_def

section \<open>The net seconds shown, totalled and exported\<close>

lemma foldl_plus_sum_list:
  fixes f :: "'a \<Rightarrow> 'n::comm_monoid_add"
  shows "foldl (\<lambda>a t. a + f t) z ts = z + sum_list (map f ts)"
  by (induction ts arbitrary: z) (simp_all add: add.assoc)

lemma totals_loop_v3_Cons:
  "totals_loop_v3 nowSec (t # ts) (tot, nets) =
    totals_loop_v3 nowSec ts (tot + net_formula nowSec t, nets(ident t \<mapsto> net_formula nowSec t))"
  by (simp add: net_formula_def Let_def)

lemma totals_loop_v3_eq:
  "totals_loop_v3 nowSec ts (tot, nets) =
    (tot + sum_list (map (net_formula nowSec) ts),
     nets ++ map_of (rev (map (\<lambda>t. (ident t, net_formula nowSec t)) ts)))"
proof (induction ts arbitrary: tot nets)
  case Nil
  then show ?case by simp
next
  case (Cons t ts)
  have "nets(ident t \<mapsto> net_formula nowSec t) ++ m =
        nets ++ ([ident t \<mapsto> net_formula nowSec t] ++ m)" for m
    by (simp add: fun_eq_iff map_add_def split: option.splits)
  then show ?case
    unfolding totals_loop_v3_Cons Cons.IH
    by (simp add: add.assoc)
qed

lemma map_of_rev_distinct:
  assumes "distinct (map ident ts)" and "t \<in> set ts"
  shows "map_of (rev (map (\<lambda>t. (ident t, f t)) ts)) (ident t) = Some (f t)"
proof -
  have "distinct (map fst (rev (map (\<lambda>t. (ident t, f t)) ts)))"
    using assms(1) by (simp add: rev_map [symmetric] comp_def)
  moreover have "(ident t, f t) \<in> set (rev (map (\<lambda>t. (ident t, f t)) ts))"
    using assms(2) by auto
  ultimately show ?thesis
    by (rule map_of_is_SomeI)
qed

lemma cardNet_v3_eq:
  assumes "distinct (map ident ts)" and "t \<in> set ts"
  shows "cardNet_v3 nowSec ts t = net_formula nowSec t"
  using map_of_rev_distinct [OF assms, of "net_formula nowSec"]
  by (simp add: cardNet_v3_def totals_v3_def totals_loop_v3_eq orElse_def)

lemma totals_v3_total: "fst (totals_v3 nowSec ts) = fmtHMS (sum_list (map (net_formula nowSec) ts))"
  by (simp add: totals_v3_def totals_loop_v3_eq)

lemma goalCheck_v3_step_eq:
  "goalCheck_v3_step nowSec t =
    (if goalOn t \<and> \<not> goalFired t \<and> targetSec t \<noteq> 0 \<and> targetSec t \<le> net_formula nowSec t
     then (t\<lparr>goalFired := True\<rparr>,
           Some \<lparr>cel_id = ident t, cel_name = name t, cel_target = targetSec t\<rparr>)
     else (t, None))"
  by (simp add: goalCheck_v3_step_def net_formula_def Let_def)

lemma timerNetSeconds_eq:
  assumes "startTs t \<noteq> Some 0"
  shows "timerNetSeconds now t = net_formula_ms now t"
  using assms by (cases "startTs t") (simp_all add: timerNetSeconds_def net_formula_ms_def)

lemma totalTracked_v2_eq:
  assumes "\<forall>t\<in>set ts. startTs t \<noteq> Some 0"
  shows "totalTracked_v2 now ts = sum_list (map (net_formula_ms now) ts)"
proof -
  have "sum_list (map (timerNetSeconds now) ts) = sum_list (map (net_formula_ms now) ts)"
    using assms
    by (intro arg_cong [where f = sum_list] map_cong refl) (simp add: timerNetSeconds_eq)
  then show ?thesis
    by (simp add: totalTracked_v2_def foldl_plus_sum_list)
qed

lemma timerLoop_v1_step_eq:
  assumes "running t" and "startTs t = Some s"
  shows "timerLoop_v1_step now t =
    (if goalOn t \<and> \<not> goalFired t \<and> 0 < targetSec t \<and> targetSec t \<le> net_formula now t
     then (t\<lparr>goalFired := True, elapsedSec := elapsedSec t + (now - s)\<rparr>,
           Some \<lparr>cel_id = ident t, cel_name = name t, cel_target = targetSec t\<rparr>)
     else (t\<lparr>elapsedSec := elapsedSec t + (now - s)\<rparr>, None))"
  using assms by (simp add: timerLoop_v1_step_def net_formula_def Let_def)

text \<open>
  C1, as the code has it. In the third implementation the net seconds a card shows (for
  timers with distinct ids), the total, and the value the goal check compares with the
  target are \<open>max(0, elapsedSec + (running with non-null startTs ? nowSec - startTs : 0) -
  revisionSec)\<close>, at the polled clock reading \<open>nowSec\<close>. In the second variant
  \<open>timerNetSeconds\<close>, which the cards, the total and the goal checker use, is the same
  formula with the millisecond difference \<open>now - startTs\<close> divided by 1000, for a start
  timestamp that is not 0. In the first variant the value shown and totalled is
  \<open>max(0, elapsedSec - revisionSec)\<close>, with no term for the current run; only the goal test
  of its timer loop, which looks at running timers, compares the formula with the target.
\<close>

theorem net_seconds_formula:
  fixes xs zs :: "int timer list" and ys :: "rat timer list"
    and t :: "int timer" and u :: "rat timer"
  shows
   "(distinct (map ident zs) \<and> t \<in> set zs \<longrightarrow> cardNet_v3 nowSec zs t = net_formula nowSec t)
  \<and> fst (totals_v3 nowSec zs) = fmtHMS (sum_list (map (net_formula nowSec) zs))
  \<and> goalCheck_v3_step nowSec t =
      (if goalOn t \<and> \<not> goalFired t \<and> targetSec t \<noteq> 0 \<and> targetSec t \<le> net_formula nowSec t
       then (t\<lparr>goalFired := True\<rparr>,
             Some \<lparr>cel_id = ident t, cel_name = name t, cel_target = targetSec t\<rparr>)
       else (t, None))
  \<and> (startTs u \<noteq> Some 0 \<longrightarrow> timerNetSeconds now_ms u = net_formula_ms now_ms u)
  \<and> ((\<forall>u\<in>set ys. startTs u \<noteq> Some 0) \<longrightarrow>
       totalTracked_v2 now_ms ys = sum_list (map (net_formula_ms now_ms) ys))
  \<and> netSeconds_v1 t = max 0 (elapsedSec t - revisionSec t)
  \<and> totalTracked_v1 xs = fmtHMS (sum_list (map (\<lambda>t. max 0 (elapsedSec t - revisionSec t)) xs))
  \<and> (running t \<and> startTs t \<noteq> None \<longrightarrow>
       snd (timerLoop_v1_step nowSec t) =
         (if goalOn t \<and> \<not> goalFired t \<and> 0 < targetSec t \<and> targetSec t \<le> net_formula nowSec t
          then Some \<lparr>cel_id = ident t, cel_name = name t, cel_target = targetSec t\<rparr>
          else None))"
proof -
  have v1: "totalTracked_v1 xs =
      fmtHMS (sum_list (map (\<lambda>t. max 0 (elapsedSec t - revisionSec t)) xs))"
    by (simp add: totalTracked_v1_def foldl_plus_sum_list)
  have loop: "snd (timerLoop_v1_step nowSec t) =
         (if goalOn t \<and> \<not> goalFired t \<and> 0 < targetSec t \<and> targetSec t \<le> net_formula nowSec t
          then Some \<lparr>cel_id = ident t, cel_name = name t, cel_target = targetSec t\<rparr>
          else None)" if "running t" "startTs t \<noteq> None"
    using that by (auto simp: timerLoop_v1_step_eq)
  show ?thesis
    using v1 loop
    by (simp add: cardNet_v3_eq totals_v3_total goalCheck_v3_step_eq [symmetric]
        timerNetSeconds_eq totalTracked_v2_eq netSeconds_v1_def)
qed

theorem net_seconds_formula_witness:
  "cardNet_v3 105 (startTimer_v3 ''a'' 100 (addTimer_v3 ''a'' []))
       (startTimer_v3 ''a'' 100 (addTimer_v3 ''a'' []) ! 0) = 5
   \<and> net_formula 105 (startTimer_v3 ''a'' 100 (addTimer_v3 ''a'' []) ! 0) = 5
   \<and> timerNetSeconds 2500 (startTimer_v2 ''a'' 1000 (addTimer_v2 ''a'' []) ! 0) = 3 / 2
   \<and> net_formula_ms 2500 (startTimer_v2 ''a'' 1000 (addTimer_v2 ''a'' []) ! 0) = 3 / 2
   \<and> totalTracked_v2 2500 (startTimer_v2 ''a'' 1000 (addTimer_v2 ''a'' [])) = 3 / 2
   \<and> snd (timerLoop_v1_step 105 (startTimer_v1 ''a'' 100 (addTimer_v1 ''a'' []) ! 0)) = None"
proof -
  let ?zs = "startTimer_v3 ''a'' 100 (addTimer_v3 ''a'' [])"
  let ?ys = "startTimer_v2 ''a'' 1000 (addTimer_v2 ''a'' [])"
  let ?xs = "startTimer_v1 ''a'' 100 (addTimer_v1 ''a'' [])"
  have zs: "?zs = [(addTimer_v3 ''a'' [] ! 0)\<lparr>running := True, startTs := Some 100\<rparr>]"
    by (simp add: startTimer_v3_def startTimer_v3_step_def addTimer_v3_def)
  have ys: "?ys = [(addTimer_v2 ''a'' [] ! 0)\<lparr>running := True, startTs := Some 1000\<rparr>]"
    by (simp add: startTimer_v2_def startTimer_v2_step_def addTimer_v2_def)
  have xs: "?xs = [(addTimer_v1 ''a'' [] ! 0)\<lparr>running := True, startTs := Some 100\<rparr>]"
    by (simp add: startTimer_v1_def startTimer_v1_step_def addTimer_v1_def)
  show ?thesis
    using net_seconds_formula [where zs = ?zs and t = "?zs ! 0" and nowSec = 105
        and u = "?ys ! 0" and ys = ?ys and now_ms = 2500 and xs = ?xs]
      net_seconds_formula [where zs = ?zs and t = "?xs ! 0" and nowSec = 105
        and u = "?ys ! 0" and ys = ?ys and now_ms = 2500 and xs = ?xs]
    unfolding zs ys xs
    by (simp add: addTimer_v1_def addTimer_v2_def addTimer_v3_def net_formula_def
        net_formula_ms_def)
qed

text \<open>
  The first variant one second after a start, at its first tick: the card shows 1 where the
  formula of the specification gives 2.
\<close>

theorem net_seconds_formula_counterexample:
  "netSeconds_v1
     (fst (run step_v1 [(100, StartTimer ''a''), (101, Tick)] (addTimer_v1 ''a'' [])) ! 0) = 1
   \<and> net_formula 101
     (fst (run step_v1 [(100, StartTimer ''a''), (101, Tick)] (addTimer_v1 ''a'' [])) ! 0) = 2"
  by (simp add: startTimer_v1_def startTimer_v1_step_def addTimer_v1_def timerLoop_v1_def
      timerLoop_v1_step_def netSeconds_v1_def net_formula_def)

section \<open>The goal celebration\<close>

lemma run_quiet:
  assumes "I s"
    and "\<And>now a s. (now, a) \<in> set evs \<Longrightarrow> I s \<Longrightarrow>
      I (fst (step now a s)) \<and> (\<forall>c\<in>set (snd (step now a s)). Q c)"
  shows "I (fst (run step evs s)) \<and> (\<forall>c\<in>set (snd (run step evs s)). Q c)"
  using assms
proof (induction evs arbitrary: s)
  case Nil
  then show ?case by simp
next
  case (Cons e evs)
  obtain now a where e: "e = (now, a)" by (cases e)
  have one: "I (fst (step now a s)) \<and> (\<forall>c\<in>set (snd (step now a s)). Q c)"
    using Cons.prems(2) [of now a s] Cons.prems(1) by (simp add: e)
  have "I (fst (run step evs (fst (step now a s))))
    \<and> (\<forall>c\<in>set (snd (run step evs (fst (step now a s)))). Q c)"
  proof (rule Cons.IH)
    show "I (fst (step now a s))"
      using one by simp
    show "I (fst (step now' a' s')) \<and> (\<forall>c\<in>set (snd (step now' a' s')). Q c)"
      if "(now', a') \<in> set evs" "I s'" for now' a' s'
      using Cons.prems(2) [of now' a' s'] that by simp
  qed
  then show ?case
    using one by (simp add: e split_beta ball_Un)
qed

lemma set_map_filter:
  "y \<in> set (List.map_filter f xs) \<longleftrightarrow> (\<exists>x\<in>set xs. f x = Some y)"
  by (induction xs) (auto split: option.splits)

text \<open>A tick raises a celebration only for a timer whose goal has not fired.\<close>

lemma tick_quiet:
  fixes xs zs :: "int timer list" and ys :: "rat timer list"
  shows "\<forall>t\<in>set xs. ident t = i \<longrightarrow> goalFired t \<Longrightarrow>
      (\<forall>t\<in>set (fst (timerLoop_v1 now xs)). ident t = i \<longrightarrow> goalFired t)
      \<and> (\<forall>c\<in>set (snd (timerLoop_v1 now xs)). cel_id c \<noteq> i)"
    and "\<forall>t\<in>set ys. ident t = i \<longrightarrow> goalFired t \<Longrightarrow>
      (\<forall>t\<in>set (fst (goalChecker_v2 now_ms ys)). ident t = i \<longrightarrow> goalFired t)
      \<and> (\<forall>c\<in>set (snd (goalChecker_v2 now_ms ys)). cel_id c \<noteq> i)"
    and "\<forall>t\<in>set zs. ident t = i \<longrightarrow> goalFired t \<Longrightarrow>
      (\<forall>t\<in>set (fst (goalCheck_v3 now zs)). ident t = i \<longrightarrow> goalFired t)
      \<and> (\<forall>c\<in>set (snd (goalCheck_v3 now zs)). cel_id c \<noteq> i)"
  by (auto simp: timerLoop_v1_def goalChecker_v2_def goalCheck_v3_def set_map_filter
      timerLoop_v1_step_def goalChecker_v2_step_def goalCheck_v3_step_def Let_def
      split: if_splits)

lemma step_v1_quiet:
  assumes "keeps_fired i a" and "\<forall>t\<in>set ts. ident t = i \<longrightarrow> goalFired t"
  shows "(\<forall>t\<in>set (fst (step_v1 now a ts)). ident t = i \<longrightarrow> goalFired t)
    \<and> (\<forall>c\<in>set (snd (step_v1 now a ts)). cel_id c \<noteq> i)"
proof (cases a)
  case Tick
  then show ?thesis
    using tick_quiet(1) [OF assms(2)] by simp
qed (use assms in \<open>auto simp: startTimer_v1_def startTimer_v1_step_def pauseTimer_v1_def
      pauseTimer_v1_step_def adjustTimer_v1_def adjustTimer_v1_step_def addTimer_v1_def
      resetTimer_def resetDay_def removeTimer_def setTheme_def setTarget_def setName_def
      setGoal_def setCategory_def reset_fields_def\<close>)

lemma step_v2_quiet:
  assumes "keeps_fired_v2 i a" and "\<forall>t\<in>set ts. ident t = i \<longrightarrow> goalFired t"
  shows "(\<forall>t\<in>set (fst (step_v2 now a ts)). ident t = i \<longrightarrow> goalFired t)
    \<and> (\<forall>c\<in>set (snd (step_v2 now a ts)). cel_id c \<noteq> i)"
proof (cases a)
  case Tick2
  then show ?thesis
    using tick_quiet(2) [OF assms(2)] by simp
qed (use assms in \<open>auto simp: startTimer_v2_def startTimer_v2_step_def pauseTimer_v2_def
      pauseTimer_v2_step_def adjustTimer_v2_def adjustTimer_v2_step_def addTimer_v2_def
      resetTimer_def resetDay_def removeTimer_def applyPatch_def Let_def reset_fields_def\<close>)

lemma step_v3_quiet:
  assumes "keeps_fired i a" and "\<forall>t\<in>set ts. ident t = i \<longrightarrow> goalFired t"
  shows "(\<forall>t\<in>set (fst (step_v3 now a ts)). ident t = i \<longrightarrow> goalFired t)
    \<and> (\<forall>c\<in>set (snd (step_v3 now a ts)). cel_id c \<noteq> i)"
proof (cases a)
  case Tick
  then show ?thesis
    using tick_quiet(3) [OF assms(2)] by simp
qed (use assms in \<open>auto simp: startTimer_v3_def startTimer_v3_step_def pauseTimer_v3_def
      pauseTimer_v3_step_def adjustTimer_v3_def adjustTimer_v3_step_def addTimer_v3_def
      resetTimer_def resetDay_def removeTimer_def setTheme_def setTarget_def setName_def
      setGoal_def setCategory_def Let_def reset_fields_def\<close>)

text \<open>The tick on one position of the list.\<close>

lemma tick_fires:
  fixes xs zs :: "int timer list" and ys :: "rat timer list"
  shows "k < length xs \<Longrightarrow> snd (timerLoop_v1_step now (xs ! k)) = Some c \<Longrightarrow>
      fst (timerLoop_v1 now xs) ! k = fst (timerLoop_v1_step now (xs ! k))
      \<and> c \<in> set (snd (timerLoop_v1 now xs))"
    and "k < length ys \<Longrightarrow> snd (goalChecker_v2_step now_ms (ys ! k)) = Some cr \<Longrightarrow>
      fst (goalChecker_v2 now_ms ys) ! k = fst (goalChecker_v2_step now_ms (ys ! k))
      \<and> cr \<in> set (snd (goalChecker_v2 now_ms ys))"
    and "k < length zs \<Longrightarrow> snd (goalCheck_v3_step now (zs ! k)) = Some c \<Longrightarrow>
      fst (goalCheck_v3 now zs) ! k = fst (goalCheck_v3_step now (zs ! k))
      \<and> c \<in> set (snd (goalCheck_v3 now zs))"
  by (auto simp: timerLoop_v1_def goalChecker_v2_def goalCheck_v3_def set_map_filter
      intro: nth_mem)

text \<open>
  What the tick does, and when it stays quiet. At a tick of the third (a change of the
  polled \<open>nowSec\<close>) and of the second implementation, every timer with \<open>goalOn\<close> true,
  \<open>goalFired\<close> false, \<open>targetSec > 0\<close> and net seconds of at least \<open>targetSec\<close> raises a
  celebration and gets \<open>goalFired\<close> set to true. At a tick of the first variant this holds
  for the timers that are running with a start timestamp, the net seconds being the
  formula with the current run; a timer that is not running is left as it is and raises
  nothing. In the first variant and the third implementation, once every timer called \<open>i\<close>
  has \<open>goalFired\<close> true, no later tick and no later start, pause, adjust, removal or edit
  raises a celebration for \<open>i\<close>, and \<open>goalFired\<close> stays true, as long as \<open>i\<close> is not reset
  and no timer is created under the same id. In the second variant the same holds for the
  runs in which every save of the editor writes a copy with \<open>goalFired\<close> true; what a save
  of an older copy does is shown below.
\<close>

lemma goal_tick_and_quiet:
  fixes xs zs :: "int timer list" and ys :: "rat timer list"
  shows
   "(k < length zs \<and> goalOn (zs ! k) \<and> \<not> goalFired (zs ! k) \<and> 0 < targetSec (zs ! k)
       \<and> targetSec (zs ! k) \<le> net_formula now (zs ! k) \<longrightarrow>
     fst (goalCheck_v3 now zs) ! k = (zs ! k)\<lparr>goalFired := True\<rparr>
     \<and> \<lparr>cel_id = ident (zs ! k), cel_name = name (zs ! k), cel_target = targetSec (zs ! k)\<rparr>
         \<in> set (snd (goalCheck_v3 now zs)))
  \<and> (k < length ys \<and> goalOn (ys ! k) \<and> \<not> goalFired (ys ! k) \<and> 0 < targetSec (ys ! k)
       \<and> targetSec (ys ! k) \<le> timerNetSeconds now_ms (ys ! k) \<longrightarrow>
     fst (goalChecker_v2 now_ms ys) ! k = (ys ! k)\<lparr>goalFired := True\<rparr>
     \<and> \<lparr>cel_id = ident (ys ! k), cel_name = name (ys ! k), cel_target = targetSec (ys ! k)\<rparr>
         \<in> set (snd (goalChecker_v2 now_ms ys)))
  \<and> (k < length xs \<and> running (xs ! k) \<and> startTs (xs ! k) = Some s
       \<and> goalOn (xs ! k) \<and> \<not> goalFired (xs ! k) \<and> 0 < targetSec (xs ! k)
       \<and> targetSec (xs ! k) \<le> net_formula now (xs ! k) \<longrightarrow>
     fst (timerLoop_v1 now xs) ! k =
       (xs ! k)\<lparr>goalFired := True, elapsedSec := elapsedSec (xs ! k) + (now - s)\<rparr>
     \<and> \<lparr>cel_id = ident (xs ! k), cel_name = name (xs ! k), cel_target = targetSec (xs ! k)\<rparr>
         \<in> set (snd (timerLoop_v1 now xs)))
  \<and> (k < length xs \<and> \<not> running (xs ! k) \<longrightarrow>
     timerLoop_v1_step now (xs ! k) = (xs ! k, None)
     \<and> fst (timerLoop_v1 now xs) ! k = xs ! k)
  \<and> ((\<forall>t\<in>set zs. ident t = i \<longrightarrow> goalFired t) \<and> list_all (\<lambda>e. keeps_fired i (snd e)) evs \<longrightarrow>
     (\<forall>c\<in>set (snd (run step_v3 evs zs)). cel_id c \<noteq> i)
     \<and> (\<forall>t\<in>set (fst (run step_v3 evs zs)). ident t = i \<longrightarrow> goalFired t))
  \<and> ((\<forall>t\<in>set ys. ident t = i \<longrightarrow> goalFired t)
       \<and> list_all (\<lambda>e. keeps_fired_v2 i (snd e)) evs_ms \<longrightarrow>
     (\<forall>c\<in>set (snd (run step_v2 evs_ms ys)). cel_id c \<noteq> i)
     \<and> (\<forall>t\<in>set (fst (run step_v2 evs_ms ys)). ident t = i \<longrightarrow> goalFired t))
  \<and> ((\<forall>t\<in>set xs. ident t = i \<longrightarrow> goalFired t) \<and> list_all (\<lambda>e. keeps_fired i (snd e)) evs \<longrightarrow>
     (\<forall>c\<in>set (snd (run step_v1 evs xs)). cel_id c \<noteq> i)
     \<and> (\<forall>t\<in>set (fst (run step_v1 evs xs)). ident t = i \<longrightarrow> goalFired t))"
proof -
  have f3: "fst (goalCheck_v3 now zs) ! k = (zs ! k)\<lparr>goalFired := True\<rparr>
     \<and> \<lparr>cel_id = ident (zs ! k), cel_name = name (zs ! k), cel_target = targetSec (zs ! k)\<rparr>
         \<in> set (snd (goalCheck_v3 now zs))"
    if "k < length zs" "goalOn (zs ! k)" "\<not> goalFired (zs ! k)" "0 < targetSec (zs ! k)"
      "targetSec (zs ! k) \<le> net_formula now (zs ! k)"
  proof -
    have "goalCheck_v3_step now (zs ! k) = ((zs ! k)\<lparr>goalFired := True\<rparr>,
        Some \<lparr>cel_id = ident (zs ! k), cel_name = name (zs ! k),
              cel_target = targetSec (zs ! k)\<rparr>)"
      using that by (simp add: goalCheck_v3_step_def net_formula_def Let_def)
    then show ?thesis
      using tick_fires(3) [OF that(1), of now] by simp
  qed
  have f2: "fst (goalChecker_v2 now_ms ys) ! k = (ys ! k)\<lparr>goalFired := True\<rparr>
     \<and> \<lparr>cel_id = ident (ys ! k), cel_name = name (ys ! k), cel_target = targetSec (ys ! k)\<rparr>
         \<in> set (snd (goalChecker_v2 now_ms ys))"
    if "k < length ys" "goalOn (ys ! k)" "\<not> goalFired (ys ! k)" "0 < targetSec (ys ! k)"
      "targetSec (ys ! k) \<le> timerNetSeconds now_ms (ys ! k)"
  proof -
    have "goalChecker_v2_step now_ms (ys ! k) = ((ys ! k)\<lparr>goalFired := True\<rparr>,
        Some \<lparr>cel_id = ident (ys ! k), cel_name = name (ys ! k),
              cel_target = targetSec (ys ! k)\<rparr>)"
      using that by (simp add: goalChecker_v2_step_def Let_def)
    then show ?thesis
      using tick_fires(2) [OF that(1), of now_ms] by simp
  qed
  have f1: "fst (timerLoop_v1 now xs) ! k =
       (xs ! k)\<lparr>goalFired := True, elapsedSec := elapsedSec (xs ! k) + (now - s)\<rparr>
     \<and> \<lparr>cel_id = ident (xs ! k), cel_name = name (xs ! k), cel_target = targetSec (xs ! k)\<rparr>
         \<in> set (snd (timerLoop_v1 now xs))"
    if "k < length xs" "running (xs ! k)" "startTs (xs ! k) = Some s" "goalOn (xs ! k)"
      "\<not> goalFired (xs ! k)" "0 < targetSec (xs ! k)"
      "targetSec (xs ! k) \<le> net_formula now (xs ! k)"
  proof -
    have "timerLoop_v1_step now (xs ! k) =
        ((xs ! k)\<lparr>goalFired := True, elapsedSec := elapsedSec (xs ! k) + (now - s)\<rparr>,
        Some \<lparr>cel_id = ident (xs ! k), cel_name = name (xs ! k),
              cel_target = targetSec (xs ! k)\<rparr>)"
      using that by (simp add: timerLoop_v1_step_def net_formula_def Let_def)
    then show ?thesis
      using tick_fires(1) [OF that(1), of now] by simp
  qed
  have idle: "timerLoop_v1_step now (xs ! k) = (xs ! k, None)
     \<and> fst (timerLoop_v1 now xs) ! k = xs ! k"
    if "k < length xs" "\<not> running (xs ! k)"
    using that by (simp add: timerLoop_v1_def timerLoop_v1_step_def)
  have q3: "(\<forall>c\<in>set (snd (run step_v3 evs zs)). cel_id c \<noteq> i)
     \<and> (\<forall>t\<in>set (fst (run step_v3 evs zs)). ident t = i \<longrightarrow> goalFired t)"
    if inv: "\<forall>t\<in>set zs. ident t = i \<longrightarrow> goalFired t"
      and la: "list_all (\<lambda>e. keeps_fired i (snd e)) evs"
  proof -
    have "(\<forall>t\<in>set (fst (run step_v3 evs zs)). ident t = i \<longrightarrow> goalFired t)
      \<and> (\<forall>c\<in>set (snd (run step_v3 evs zs)). cel_id c \<noteq> i)"
    proof (rule run_quiet [where I = "\<lambda>ts. \<forall>t\<in>set ts. ident t = i \<longrightarrow> goalFired t"])
      show "\<forall>t\<in>set zs. ident t = i \<longrightarrow> goalFired t"
        by (rule inv)
      show "(\<forall>t\<in>set (fst (step_v3 now' a s)). ident t = i \<longrightarrow> goalFired t)
        \<and> (\<forall>c\<in>set (snd (step_v3 now' a s)). cel_id c \<noteq> i)"
        if "(now', a) \<in> set evs" "\<forall>t\<in>set s. ident t = i \<longrightarrow> goalFired t" for now' a s
      proof (rule step_v3_quiet)
        show "keeps_fired i a"
          using la that(1) by (auto simp: list_all_iff)
      qed (rule that(2))
    qed
    then show ?thesis
      by simp
  qed
  have q2: "(\<forall>c\<in>set (snd (run step_v2 evs_ms ys)). cel_id c \<noteq> i)
     \<and> (\<forall>t\<in>set (fst (run step_v2 evs_ms ys)). ident t = i \<longrightarrow> goalFired t)"
    if inv: "\<forall>t\<in>set ys. ident t = i \<longrightarrow> goalFired t"
      and la: "list_all (\<lambda>e. keeps_fired_v2 i (snd e)) evs_ms"
  proof -
    have "(\<forall>t\<in>set (fst (run step_v2 evs_ms ys)). ident t = i \<longrightarrow> goalFired t)
      \<and> (\<forall>c\<in>set (snd (run step_v2 evs_ms ys)). cel_id c \<noteq> i)"
    proof (rule run_quiet [where I = "\<lambda>ts. \<forall>t\<in>set ts. ident t = i \<longrightarrow> goalFired t"])
      show "\<forall>t\<in>set ys. ident t = i \<longrightarrow> goalFired t"
        by (rule inv)
      show "(\<forall>t\<in>set (fst (step_v2 now' a s)). ident t = i \<longrightarrow> goalFired t)
        \<and> (\<forall>c\<in>set (snd (step_v2 now' a s)). cel_id c \<noteq> i)"
        if "(now', a) \<in> set evs_ms" "\<forall>t\<in>set s. ident t = i \<longrightarrow> goalFired t" for now' a s
      proof (rule step_v2_quiet)
        show "keeps_fired_v2 i a"
          using la that(1) by (auto simp: list_all_iff)
      qed (rule that(2))
    qed
    then show ?thesis
      by simp
  qed
  have q1: "(\<forall>c\<in>set (snd (run step_v1 evs xs)). cel_id c \<noteq> i)
     \<and> (\<forall>t\<in>set (fst (run step_v1 evs xs)). ident t = i \<longrightarrow> goalFired t)"
    if inv: "\<forall>t\<in>set xs. ident t = i \<longrightarrow> goalFired t"
      and la: "list_all (\<lambda>e. keeps_fired i (snd e)) evs"
  proof -
    have "(\<forall>t\<in>set (fst (run step_v1 evs xs)). ident t = i \<longrightarrow> goalFired t)
      \<and> (\<forall>c\<in>set (snd (run step_v1 evs xs)). cel_id c \<noteq> i)"
    proof (rule run_quiet [where I = "\<lambda>ts. \<forall>t\<in>set ts. ident t = i \<longrightarrow> goalFired t"])
      show "\<forall>t\<in>set xs. ident t = i \<longrightarrow> goalFired t"
        by (rule inv)
      show "(\<forall>t\<in>set (fst (step_v1 now' a s)). ident t = i \<longrightarrow> goalFired t)
        \<and> (\<forall>c\<in>set (snd (step_v1 now' a s)). cel_id c \<noteq> i)"
        if "(now', a) \<in> set evs" "\<forall>t\<in>set s. ident t = i \<longrightarrow> goalFired t" for now' a s
      proof (rule step_v1_quiet)
        show "keeps_fired i a"
          using la that(1) by (auto simp: list_all_iff)
      qed (rule that(2))
    qed
    then show ?thesis
      by simp
  qed
  show ?thesis
    by (intro conjI; rule impI; elim conjE; (rule f3 f2 f1 idle q3 q2 q1; assumption))
qed

text \<open>
  The first variant: a new timer runs from 100 to 130 and is paused; then its goal is
  switched on with a target of 20 seconds. At the next tick the timer has \<open>goalOn\<close> true,
  \<open>goalFired\<close> false, a positive target and net seconds of 30, yet the tick raises no
  celebration and leaves the list as it is.
\<close>

lemma paused_goal_skipped_v1:
  "goalOn (fst (run step_v1
       [(100, StartTimer ''a''), (130, PauseTimer ''a''), (140, SetGoal ''a'' True),
        (141, SetTarget ''a'' 20)] (addTimer_v1 ''a'' [])) ! 0)
   \<and> \<not> goalFired (fst (run step_v1
       [(100, StartTimer ''a''), (130, PauseTimer ''a''), (140, SetGoal ''a'' True),
        (141, SetTarget ''a'' 20)] (addTimer_v1 ''a'' [])) ! 0)
   \<and> targetSec (fst (run step_v1
       [(100, StartTimer ''a''), (130, PauseTimer ''a''), (140, SetGoal ''a'' True),
        (141, SetTarget ''a'' 20)] (addTimer_v1 ''a'' [])) ! 0) = 20
   \<and> netSeconds_v1 (fst (run step_v1
       [(100, StartTimer ''a''), (130, PauseTimer ''a''), (140, SetGoal ''a'' True),
        (141, SetTarget ''a'' 20)] (addTimer_v1 ''a'' [])) ! 0) = 30
   \<and> net_formula 142 (fst (run step_v1
       [(100, StartTimer ''a''), (130, PauseTimer ''a''), (140, SetGoal ''a'' True),
        (141, SetTarget ''a'' 20)] (addTimer_v1 ''a'' [])) ! 0) = 30
   \<and> step_v1 142 Tick (fst (run step_v1
       [(100, StartTimer ''a''), (130, PauseTimer ''a''), (140, SetGoal ''a'' True),
        (141, SetTarget ''a'' 20)] (addTimer_v1 ''a'' []))) =
     (fst (run step_v1
       [(100, StartTimer ''a''), (130, PauseTimer ''a''), (140, SetGoal ''a'' True),
        (141, SetTarget ''a'' 20)] (addTimer_v1 ''a'' [])), [])"
  by (simp add: startTimer_v1_def startTimer_v1_step_def pauseTimer_v1_def
      pauseTimer_v1_step_def addTimer_v1_def setGoal_def setTarget_def timerLoop_v1_def
      timerLoop_v1_step_def netSeconds_v1_def net_formula_def)

text \<open>
  C2 fails in the second variant. A new timer gets a target of one minute and the goal
  switched on, and is started at 1000 ms. The user opens its editor: the editor's form is
  the timer as it is then, with \<open>goalFired\<close> false. The tick at 61000 ms finds net seconds
  of 60 and celebrates, setting \<open>goalFired\<close>. At 62000 ms the user saves the editor with a
  new name: the patch is the whole form, so \<open>goalFired\<close> is false again, and the tick at
  63000 ms celebrates a second time. No reset is in the run. In the third implementation
  and in the first variant the editor changes one field at a time, and the same steps
  celebrate once.
\<close>

theorem goal_refires_after_save_v2:
  "fst (run step_v2
       [(500, AddTimer2 ''a''),
        (900, ApplyPatch2 ''a''
           (TimerEditor_save ((addTimer_v2 ''a'' [] ! 0)\<lparr>goalOn := True\<rparr>) 0 1)),
        (1000, StartTimer2 ''a'')] []) =
     [\<lparr>ident = ''a'', name = ''New Timer'', targetSec = 60, revisionSec = 0,
       elapsedSec = 0, startTs = Some 1000, running = True, goalOn = True,
       goalFired = False, category = ''neutral'',
       color = ''from-violet-500/30 to-fuchsia-500/30'', sort_index = 0,
       deleted = False\<rparr>]
   \<and> map goalFired (fst (run step_v2
       [(500, AddTimer2 ''a''),
        (900, ApplyPatch2 ''a''
           (TimerEditor_save ((addTimer_v2 ''a'' [] ! 0)\<lparr>goalOn := True\<rparr>) 0 1)),
        (1000, StartTimer2 ''a''),
        (61000, Tick2)] [])) = [True]
   \<and> snd (run step_v2
       [(500, AddTimer2 ''a''),
        (900, ApplyPatch2 ''a''
           (TimerEditor_save ((addTimer_v2 ''a'' [] ! 0)\<lparr>goalOn := True\<rparr>) 0 1)),
        (1000, StartTimer2 ''a''),
        (61000, Tick2),
        (62000, ApplyPatch2 ''a''
           (TimerEditor_save
              \<lparr>ident = ''a'', name = ''Reading'', targetSec = 60, revisionSec = 0,
               elapsedSec = 0, startTs = Some 1000, running = True, goalOn = True,
               goalFired = False, category = ''neutral'',
               color = ''from-violet-500/30 to-fuchsia-500/30'', sort_index = 0,
               deleted = False\<rparr> 0 1)),
        (63000, Tick2)] []) =
     [\<lparr>cel_id = ''a'', cel_name = ''New Timer'', cel_target = 60\<rparr>,
      \<lparr>cel_id = ''a'', cel_name = ''Reading'', cel_target = 60\<rparr>]
   \<and> snd (run step_v3
       [(0, AddTimer ''a''), (0, SetGoal ''a'' True), (0, SetTarget ''a'' 60),
        (1, StartTimer ''a''), (61, Tick), (62, SetName ''a'' ''Reading''), (63, Tick)] []) =
     [\<lparr>cel_id = ''a'', cel_name = ''New Timer'', cel_target = 60\<rparr>]
   \<and> snd (run step_v1
       [(0, AddTimer ''a''), (0, SetGoal ''a'' True), (0, SetTarget ''a'' 60),
        (1, StartTimer ''a''), (61, Tick), (62, SetName ''a'' ''Reading''), (63, Tick)] []) =
     [\<lparr>cel_id = ''a'', cel_name = ''New Timer'', cel_target = 60\<rparr>]"
proof -
  let ?n = "\<lparr>ident = ''a'', name = ''New Timer'', targetSec = 0, revisionSec = 0,
       elapsedSec = 0, startTs = None, running = False, goalOn = False,
       goalFired = False, category = ''neutral'',
       color = ''from-violet-500/30 to-fuchsia-500/30'', sort_index = 0,
       deleted = False\<rparr>"
  let ?p = "\<lparr>ident = ''a'', name = ''New Timer'', targetSec = 60, revisionSec = 0,
       elapsedSec = 0, startTs = None, running = False, goalOn = True,
       goalFired = False, category = ''neutral'',
       color = ''from-violet-500/30 to-fuchsia-500/30'', sort_index = 0,
       deleted = False\<rparr>"
  let ?c = "\<lparr>ident = ''a'', name = ''New Timer'', targetSec = 60, revisionSec = 0,
       elapsedSec = 0, startTs = Some 1000, running = True, goalOn = True,
       goalFired = False, category = ''neutral'',
       color = ''from-violet-500/30 to-fuchsia-500/30'', sort_index = 0,
       deleted = False\<rparr>"
  let ?cf = "\<lparr>ident = ''a'', name = ''New Timer'', targetSec = 60, revisionSec = 0,
       elapsedSec = 0, startTs = Some 1000, running = True, goalOn = True,
       goalFired = True, category = ''neutral'',
       color = ''from-violet-500/30 to-fuchsia-500/30'', sort_index = 0,
       deleted = False\<rparr>"
  let ?d = "\<lparr>ident = ''a'', name = ''Reading'', targetSec = 60, revisionSec = 0,
       elapsedSec = 0, startTs = Some 1000, running = True, goalOn = True,
       goalFired = False, category = ''neutral'',
       color = ''from-violet-500/30 to-fuchsia-500/30'', sort_index = 0,
       deleted = False\<rparr>"
  let ?df = "\<lparr>ident = ''a'', name = ''Reading'', targetSec = 60, revisionSec = 0,
       elapsedSec = 0, startTs = Some 1000, running = True, goalOn = True,
       goalFired = True, category = ''neutral'',
       color = ''from-violet-500/30 to-fuchsia-500/30'', sort_index = 0,
       deleted = False\<rparr>"
  let ?z = "\<lparr>ident = ''a'', name = ''New Timer'', targetSec = 60, revisionSec = 0,
       elapsedSec = 0, startTs = Some 1, running = True, goalOn = True,
       goalFired = False, category = ''neutral'',
       color = ''from-slate-400/20 to-slate-700/20'', sort_index = 0,
       deleted = False\<rparr>"
  let ?zf = "\<lparr>ident = ''a'', name = ''New Timer'', targetSec = 60, revisionSec = 0,
       elapsedSec = 0, startTs = Some 1, running = True, goalOn = True,
       goalFired = True, category = ''neutral'',
       color = ''from-slate-400/20 to-slate-700/20'', sort_index = 0,
       deleted = False\<rparr>"
  let ?zr = "\<lparr>ident = ''a'', name = ''Reading'', targetSec = 60, revisionSec = 0,
       elapsedSec = 0, startTs = Some 1, running = True, goalOn = True,
       goalFired = True, category = ''neutral'',
       color = ''from-slate-400/20 to-slate-700/20'', sort_index = 0,
       deleted = False\<rparr>"
  let ?xf = "\<lparr>ident = ''a'', name = ''New Timer'', targetSec = 60, revisionSec = 0,
       elapsedSec = 60, startTs = Some 1, running = True, goalOn = True,
       goalFired = True, category = ''neutral'',
       color = ''from-slate-400/20 to-slate-700/20'', sort_index = 0,
       deleted = False\<rparr>"
  let ?xr = "\<lparr>ident = ''a'', name = ''Reading'', targetSec = 60, revisionSec = 0,
       elapsedSec = 60, startTs = Some 1, running = True, goalOn = True,
       goalFired = True, category = ''neutral'',
       color = ''from-slate-400/20 to-slate-700/20'', sort_index = 0,
       deleted = False\<rparr>"
  let ?xs = "\<lparr>ident = ''a'', name = ''Reading'', targetSec = 60, revisionSec = 0,
       elapsedSec = 122, startTs = Some 1, running = True, goalOn = True,
       goalFired = True, category = ''neutral'',
       color = ''from-slate-400/20 to-slate-700/20'', sort_index = 0,
       deleted = False\<rparr>"
  let ?cel = "\<lparr>cel_id = ''a'', cel_name = ''New Timer'', cel_target = 60\<rparr>"
  let ?cel' = "\<lparr>cel_id = ''a'', cel_name = ''Reading'', cel_target = 60\<rparr>"
  have new: "addTimer_v2 ''a'' [] = [?n]"
    by (simp add: addTimer_v2_def)
  have p1: "TimerEditor_save ((addTimer_v2 ''a'' [] ! 0)\<lparr>goalOn := True\<rparr>) 0 1 = ?p"
    by (simp add: new TimerEditor_save_def clamp_def)
  have st: "startTimer_v2 ''a'' 1000 (applyPatch ''a'' ?p (addTimer_v2 ''a'' [])) = [?c]"
    by (simp add: new applyPatch_def startTimer_v2_def startTimer_v2_step_def)
  have t1: "goalChecker_v2 61000 [?c] = ([?cf], [?cel])"
    by (simp add: goalChecker_v2_def goalChecker_v2_step_def timerNetSeconds_def
        List.map_filter_def or0_def truthy_def)
  have p2: "TimerEditor_save ?d 0 1 = ?d"
    by (simp add: TimerEditor_save_def clamp_def)
  have ap: "applyPatch ''a'' ?d [?cf] = [?d]"
    by (simp add: applyPatch_def)
  have t2: "goalChecker_v2 63000 [?d] = ([?df], [?cel'])"
    by (simp add: goalChecker_v2_def goalChecker_v2_step_def timerNetSeconds_def
        List.map_filter_def or0_def truthy_def)
  have z3: "startTimer_v3 ''a'' 1 (setTarget ''a'' 60 (setGoal ''a'' True (addTimer_v3 ''a'' [])))
      = [?z]"
    by (simp add: addTimer_v3_def setGoal_def setTarget_def startTimer_v3_def
        startTimer_v3_step_def)
  have z1: "startTimer_v1 ''a'' 1 (setTarget ''a'' 60 (setGoal ''a'' True (addTimer_v1 ''a'' [])))
      = [?z]"
    by (simp add: addTimer_v1_def setGoal_def setTarget_def startTimer_v1_def
        startTimer_v1_step_def)
  have g3: "goalCheck_v3 61 [?z] = ([?zf], [?cel])" "goalCheck_v3 63 [?zr] = ([?zr], [])"
    by (simp_all add: goalCheck_v3_def goalCheck_v3_step_def List.map_filter_def or0_def)
  have g1: "timerLoop_v1 61 [?z] = ([?xf], [?cel])" "timerLoop_v1 63 [?xr] = ([?xs], [])"
    by (simp_all add: timerLoop_v1_def timerLoop_v1_step_def List.map_filter_def or0_def)
  have sn: "setName ''a'' ''Reading'' [?zf] = [?zr]" "setName ''a'' ''Reading'' [?xf] = [?xr]"
    by (simp_all add: setName_def)
  have a: "run step_v2
       [(500, AddTimer2 ''a''),
        (900, ApplyPatch2 ''a''
           (TimerEditor_save ((addTimer_v2 ''a'' [] ! 0)\<lparr>goalOn := True\<rparr>) 0 1)),
        (1000, StartTimer2 ''a'')] [] = ([?c], [])"
    by (simp add: p1 st)
  have b: "run step_v2
       [(500, AddTimer2 ''a''),
        (900, ApplyPatch2 ''a''
           (TimerEditor_save ((addTimer_v2 ''a'' [] ! 0)\<lparr>goalOn := True\<rparr>) 0 1)),
        (1000, StartTimer2 ''a''),
        (61000, Tick2)] [] = ([?cf], [?cel])"
    by (simp add: p1 st t1)
  have v2: "run step_v2
       [(500, AddTimer2 ''a''),
        (900, ApplyPatch2 ''a''
           (TimerEditor_save ((addTimer_v2 ''a'' [] ! 0)\<lparr>goalOn := True\<rparr>) 0 1)),
        (1000, StartTimer2 ''a''),
        (61000, Tick2),
        (62000, ApplyPatch2 ''a''
           (TimerEditor_save
              \<lparr>ident = ''a'', name = ''Reading'', targetSec = 60, revisionSec = 0,
               elapsedSec = 0, startTs = Some 1000, running = True, goalOn = True,
               goalFired = False, category = ''neutral'',
               color = ''from-violet-500/30 to-fuchsia-500/30'', sort_index = 0,
               deleted = False\<rparr> 0 1)),
        (63000, Tick2)] [] =
     ([?df], [?cel, ?cel'])"
    by (simp add: p1 p2 st t1 ap t2)
  have v3: "run step_v3
       [(0, AddTimer ''a''), (0, SetGoal ''a'' True), (0, SetTarget ''a'' 60),
        (1, StartTimer ''a''), (61, Tick), (62, SetName ''a'' ''Reading''), (63, Tick)] [] =
     ([?zr], [?cel])"
    by (simp add: z3 g3 sn)
  have v1: "run step_v1
       [(0, AddTimer ''a''), (0, SetGoal ''a'' True), (0, SetTarget ''a'' 60),
        (1, StartTimer ''a''), (61, Tick), (62, SetName ''a'' ''Reading''), (63, Tick)] [] =
     ([?xs], [?cel])"
    by (simp add: z1 g1 sn)
  show ?thesis
    unfolding a b v2 v3 v1 by simp
qed

theorem goal_refires_after_save_v2_witness:
  "length (filter (\<lambda>c. cel_id c = ''a'') (snd (run step_v2
       [(500, AddTimer2 ''a''),
        (900, ApplyPatch2 ''a''
           (TimerEditor_save ((addTimer_v2 ''a'' [] ! 0)\<lparr>goalOn := True\<rparr>) 0 1)),
        (1000, StartTimer2 ''a''),
        (61000, Tick2),
        (62000, ApplyPatch2 ''a''
           (TimerEditor_save
              \<lparr>ident = ''a'', name = ''Reading'', targetSec = 60, revisionSec = 0,
               elapsedSec = 0, startTs = Some 1000, running = True, goalOn = True,
               goalFired = False, category = ''neutral'',
               color = ''from-violet-500/30 to-fuchsia-500/30'', sort_index = 0,
               deleted = False\<rparr> 0 1)),
        (63000, Tick2)] []))) = 2"
  by (simp only: goal_refires_after_save_v2 [THEN conjunct2, THEN conjunct2, THEN conjunct1])
    simp

section \<open>Adjust\<close>

lemma adjustTimer_v3_running:
  assumes "ident t = i" "running t" "startTs t = Some s"
  shows "adjustTimer_v3_step i d now t =
    t\<lparr>elapsedSec := max 0 (elapsedSec t + (now - s) + d), startTs := Some now\<rparr>"
  using assms by (simp add: adjustTimer_v3_step_def Let_def)

lemma adjustTimer_v3_paused:
  assumes "ident t = i" "\<not> running t"
  shows "adjustTimer_v3_step i d now t = t\<lparr>elapsedSec := max 0 (elapsedSec t + d)\<rparr>"
  using assms by (simp add: adjustTimer_v3_step_def Let_def)

lemma adjustTimer_v2_running:
  assumes "ident t = i" "running t" "startTs t = Some s" "s \<noteq> 0"
  shows "adjustTimer_v2_step i d now t =
    t\<lparr>elapsedSec := max 0 (elapsedSec t + (now - s) / 1000 + d), startTs := Some now\<rparr>"
  using assms by (simp add: adjustTimer_v2_step_def Let_def)

lemma adjustTimer_v2_paused:
  assumes "ident t = i" "\<not> running t"
  shows "adjustTimer_v2_step i d now t = t\<lparr>elapsedSec := max 0 (elapsedSec t + d)\<rparr>"
  using assms by (simp add: adjustTimer_v2_step_def Let_def)

text \<open>
  In the second and third implementations an adjustment of a running timer moves the net
  seconds by exactly the adjustment, down to 0: nothing of the run so far is lost or counted
  twice. The revision is not negative and not more than the time accumulated (locally both
  implementations keep it at 0), and the clock readings are not 0.
\<close>

lemma adjustTimer_v3_net:
  assumes "ident t = i" "running t" "startTs t = Some s"
    and "0 \<le> revisionSec t" "revisionSec t \<le> elapsedSec t + (now - s)"
  shows "net_formula now (adjustTimer_v3_step i d now t) = max 0 (net_formula now t + d)"
  using assms by (simp add: adjustTimer_v3_running net_formula_def max_def)

lemma adjustTimer_v2_net:
  assumes "ident t = i" "running t" "startTs t = Some s" "s \<noteq> 0" "now \<noteq> 0"
    and "0 \<le> revisionSec t" "revisionSec t \<le> elapsedSec t + (now - s) / 1000"
  shows "timerNetSeconds now (adjustTimer_v2_step i d now t) = max 0 (timerNetSeconds now t + d)"
proof -
  define e where "e = elapsedSec t + (now - s) / 1000"
  have before: "timerNetSeconds now t = e - revisionSec t"
    using assms by (simp add: timerNetSeconds_def e_def max_def)
  have after: "timerNetSeconds now (adjustTimer_v2_step i d now t) =
      max 0 (max 0 (e + d) - revisionSec t)"
    using assms by (simp add: adjustTimer_v2_running timerNetSeconds_def e_def)
  show ?thesis
    unfolding before after using assms(6,7) by (simp add: e_def max_def)
qed

text \<open>
  C3, as the code has it. In the second and third implementations, adjusting a running
  timer (the timer of the list whose id is given, with its start timestamp) sets
  \<open>elapsedSec\<close> to \<open>max(0, elapsedSec + (now - startTs) + delta)\<close> and \<open>startTs\<close> to \<open>now\<close>,
  and adjusting a paused timer sets \<open>elapsedSec\<close> to \<open>max(0, elapsedSec + delta)\<close>; in the
  second variant the timestamps are milliseconds, the difference is divided by 1000 and
  the start timestamp is not 0. In the first variant an adjustment touches neither
  \<open>elapsedSec\<close> nor \<open>startTs\<close> nor \<open>running\<close>, whether the timer runs or not: it takes the
  delta off \<open>revisionSec\<close>, as long as that leaves \<open>revisionSec\<close> not negative.
\<close>

theorem adjust_effect:
  fixes xs zs :: "int timer list" and ys :: "rat timer list"
  shows
   "(k < length zs \<and> ident (zs ! k) = i \<and> running (zs ! k) \<and> startTs (zs ! k) = Some s \<longrightarrow>
       adjustTimer_v3 i d now zs ! k =
         (zs ! k)\<lparr>elapsedSec := max 0 (elapsedSec (zs ! k) + (now - s) + d),
                  startTs := Some now\<rparr>)
  \<and> (k < length zs \<and> ident (zs ! k) = i \<and> \<not> running (zs ! k) \<longrightarrow>
       adjustTimer_v3 i d now zs ! k =
         (zs ! k)\<lparr>elapsedSec := max 0 (elapsedSec (zs ! k) + d)\<rparr>)
  \<and> (k < length ys \<and> ident (ys ! k) = i \<and> running (ys ! k) \<and> startTs (ys ! k) = Some ms
       \<and> ms \<noteq> 0 \<longrightarrow>
       adjustTimer_v2 i dr now_ms ys ! k =
         (ys ! k)\<lparr>elapsedSec := max 0 (elapsedSec (ys ! k) + (now_ms - ms) / 1000 + dr),
                  startTs := Some now_ms\<rparr>)
  \<and> (k < length ys \<and> ident (ys ! k) = i \<and> \<not> running (ys ! k) \<longrightarrow>
       adjustTimer_v2 i dr now_ms ys ! k =
         (ys ! k)\<lparr>elapsedSec := max 0 (elapsedSec (ys ! k) + dr)\<rparr>)
  \<and> (k < length xs \<longrightarrow>
       elapsedSec (adjustTimer_v1 i d xs ! k) = elapsedSec (xs ! k)
       \<and> startTs (adjustTimer_v1 i d xs ! k) = startTs (xs ! k)
       \<and> running (adjustTimer_v1 i d xs ! k) = running (xs ! k))
  \<and> (k < length xs \<and> ident (xs ! k) = i \<and> 0 \<le> revisionSec (xs ! k) - d \<longrightarrow>
       adjustTimer_v1 i d xs ! k = (xs ! k)\<lparr>revisionSec := revisionSec (xs ! k) - d\<rparr>)"
  by (simp add: adjustTimer_v3_def adjustTimer_v2_def adjustTimer_v1_def
      adjustTimer_v3_running adjustTimer_v3_paused adjustTimer_v2_running adjustTimer_v2_paused
      adjustTimer_v1_step_def)

theorem adjust_effect_witness:
  "adjustTimer_v3 ''a'' (- 60) 250 (startTimer_v3 ''a'' 100 (addTimer_v3 ''a'' [])) ! 0 =
     (startTimer_v3 ''a'' 100 (addTimer_v3 ''a'' []) ! 0)\<lparr>elapsedSec := 90, startTs := Some 250\<rparr>
   \<and> adjustTimer_v3 ''a'' 60 250 (addTimer_v3 ''a'' []) ! 0 =
     (addTimer_v3 ''a'' [] ! 0)\<lparr>elapsedSec := 60\<rparr>
   \<and> adjustTimer_v2 ''a'' (- 60) 151000 (startTimer_v2 ''a'' 1000 (addTimer_v2 ''a'' [])) ! 0 =
     (startTimer_v2 ''a'' 1000 (addTimer_v2 ''a'' []) ! 0)
       \<lparr>elapsedSec := 90, startTs := Some 151000\<rparr>
   \<and> adjustTimer_v2 ''a'' 60 151000 (addTimer_v2 ''a'' []) ! 0 =
     (addTimer_v2 ''a'' [] ! 0)\<lparr>elapsedSec := 60\<rparr>
   \<and> adjustTimer_v1 ''a'' (- 60) (startTimer_v1 ''a'' 100 (addTimer_v1 ''a'' [])) ! 0 =
     (startTimer_v1 ''a'' 100 (addTimer_v1 ''a'' []) ! 0)\<lparr>revisionSec := 60\<rparr>"
proof -
  let ?zs = "startTimer_v3 ''a'' 100 (addTimer_v3 ''a'' [])"
  let ?ys = "startTimer_v2 ''a'' 1000 (addTimer_v2 ''a'' [])"
  let ?xs = "startTimer_v1 ''a'' 100 (addTimer_v1 ''a'' [])"
  have zs: "?zs = [(addTimer_v3 ''a'' [] ! 0)\<lparr>running := True, startTs := Some 100\<rparr>]"
    by (simp add: startTimer_v3_def startTimer_v3_step_def addTimer_v3_def)
  have ys: "?ys = [(addTimer_v2 ''a'' [] ! 0)\<lparr>running := True, startTs := Some 1000\<rparr>]"
    by (simp add: startTimer_v2_def startTimer_v2_step_def addTimer_v2_def)
  have xs: "?xs = [(addTimer_v1 ''a'' [] ! 0)\<lparr>running := True, startTs := Some 100\<rparr>]"
    by (simp add: startTimer_v1_def startTimer_v1_step_def addTimer_v1_def)
  show ?thesis
    using
      adjust_effect [where k = 0 and i = "''a''" and zs = ?zs and ys = ?ys and xs = ?xs
        and d = "- 60" and dr = "- 60" and now = 250 and now_ms = 151000 and s = 100
        and ms = 1000]
      adjust_effect [where k = 0 and i = "''a''" and zs = "addTimer_v3 ''a'' []"
        and ys = "addTimer_v2 ''a'' []" and xs = ?xs
        and d = 60 and dr = 60 and now = 250 and now_ms = 151000 and s = 100 and ms = 1000]
    unfolding zs ys xs
    by (simp add: addTimer_v1_def addTimer_v2_def addTimer_v3_def)
qed

text \<open>
  The first variant, a timer started at 100 and adjusted by -60 at 150: \<open>elapsedSec\<close> stays 0
  and \<open>startTs\<close> stays 100, where the claim has the run of 50 seconds added to \<open>elapsedSec\<close>
  and \<open>startTs\<close> set to 150.
\<close>

theorem adjust_effect_counterexample:
  "elapsedSec (fst (run step_v1 [(100, StartTimer ''a''), (150, AdjustTimer ''a'' (- 60))]
       (addTimer_v1 ''a'' [])) ! 0) = 0
   \<and> startTs (fst (run step_v1 [(100, StartTimer ''a''), (150, AdjustTimer ''a'' (- 60))]
       (addTimer_v1 ''a'' [])) ! 0) = Some 100
   \<and> running (fst (run step_v1 [(100, StartTimer ''a''), (150, AdjustTimer ''a'' (- 60))]
       (addTimer_v1 ''a'' [])) ! 0)"
  by (simp add: startTimer_v1_def startTimer_v1_step_def addTimer_v1_def adjustTimer_v1_def
      adjustTimer_v1_step_def)

text \<open>
  C4 fails in the first variant. A timer that has accumulated 100 seconds and is running
  again is adjusted by +60 seconds at the clock reading 300 of its restart: its net seconds
  are 100 before and still 100 after, where the claim has 160. The adjustment is taken off
  \<open>revisionSec\<close>, which is 0 and is clamped at 0, so the added time is dropped.
\<close>

theorem adjust_add_lost_v1:
  "netSeconds_v1 (fst (run step_v1
       [(100, StartTimer ''a''), (200, PauseTimer ''a''), (300, StartTimer ''a'')]
       (addTimer_v1 ''a'' [])) ! 0) = 100
   \<and> net_formula 300 (fst (run step_v1
       [(100, StartTimer ''a''), (200, PauseTimer ''a''), (300, StartTimer ''a'')]
       (addTimer_v1 ''a'' [])) ! 0) = 100
   \<and> running (fst (run step_v1
       [(100, StartTimer ''a''), (200, PauseTimer ''a''), (300, StartTimer ''a'')]
       (addTimer_v1 ''a'' [])) ! 0)
   \<and> netSeconds_v1 (fst (run step_v1
       [(100, StartTimer ''a''), (200, PauseTimer ''a''), (300, StartTimer ''a''),
        (300, AdjustTimer ''a'' 60)]
       (addTimer_v1 ''a'' [])) ! 0) = 100
   \<and> net_formula 300 (fst (run step_v1
       [(100, StartTimer ''a''), (200, PauseTimer ''a''), (300, StartTimer ''a''),
        (300, AdjustTimer ''a'' 60)]
       (addTimer_v1 ''a'' [])) ! 0) = 100"
  by (simp add: startTimer_v1_def startTimer_v1_step_def pauseTimer_v1_def
      pauseTimer_v1_step_def addTimer_v1_def adjustTimer_v1_def adjustTimer_v1_step_def
      netSeconds_v1_def net_formula_def)

theorem adjust_add_lost_v1_witness:
  "netSeconds_v1 (fst (run step_v1
       [(100, StartTimer ''a''), (200, PauseTimer ''a''), (300, StartTimer ''a''),
        (300, AdjustTimer ''a'' 60)]
       (addTimer_v1 ''a'' [])) ! 0) \<noteq> max 0 (100 + 60)"
  using adjust_add_lost_v1 by simp

section \<open>The exported rows\<close>

text \<open>
  C5, as the code has it. Every export has the header row and then one row per timer, in
  order. In the third implementation the second cell of a timer's row is the net seconds
  \<open>max(0, elapsedSec + (running with non-null startTs ? nowSec - startTs : 0) - revisionSec)\<close>
  at the polled clock reading \<open>nowSec\<close>. In the second variant the twelfth cell is that
  formula, with the millisecond difference divided by 1000 and a start timestamp that is
  not 0, rounded down to whole seconds. In the first variant the second cell is
  \<open>max(0, elapsedSec - revisionSec)\<close>, with no term for the current run.
\<close>

theorem export_net:
  fixes xs zs :: "int timer list" and ys :: "rat timer list"
  shows
   "length (exportCSV_v3 nowSec zs) = Suc (length zs)
  \<and> (k < length zs \<longrightarrow>
       exportCSV_v3 nowSec zs ! Suc k ! 1 = CNum (net_formula nowSec (zs ! k)))
  \<and> length (exportCSV_v2 now_ms ys) = Suc (length ys)
  \<and> (k < length ys \<and> startTs (ys ! k) \<noteq> Some 0 \<longrightarrow>
       exportCSV_v2 now_ms ys ! Suc k ! 11 = CNum (of_int \<lfloor>net_formula_ms now_ms (ys ! k)\<rfloor>))
  \<and> length (exportCSV_v1 xs) = Suc (length xs)
  \<and> (k < length xs \<longrightarrow>
       exportCSV_v1 xs ! Suc k ! 1 = CNum (max 0 (elapsedSec (xs ! k) - revisionSec (xs ! k))))"
proof -
  have v2: "exportCSV_v2 now_ms ys ! Suc k ! 11 = CNum (of_int \<lfloor>net_formula_ms now_ms (ys ! k)\<rfloor>)"
    if "k < length ys" "startTs (ys ! k) \<noteq> Some 0"
    using that
    by (cases "startTs (ys ! k)") (simp_all add: exportCSV_v2_def net_formula_ms_def Let_def)
  show ?thesis
    using v2 by (simp add: exportCSV_v3_def exportCSV_v2_def exportCSV_v1_def net_formula_def Let_def)
qed

theorem export_net_witness:
  "exportCSV_v3 105 (startTimer_v3 ''a'' 100 (addTimer_v3 ''a'' [])) ! 1 ! 1 = CNum 5
   \<and> net_formula 105 (startTimer_v3 ''a'' 100 (addTimer_v3 ''a'' []) ! 0) = 5
   \<and> exportCSV_v2 2500 (startTimer_v2 ''a'' 1000 (addTimer_v2 ''a'' [])) ! 1 ! 11 = CNum 1
   \<and> net_formula_ms 2500 (startTimer_v2 ''a'' 1000 (addTimer_v2 ''a'' []) ! 0) = 3 / 2
   \<and> exportCSV_v1 (startTimer_v1 ''a'' 100 (addTimer_v1 ''a'' [])) ! 1 ! 1 = CNum 0"
proof -
  let ?zs = "startTimer_v3 ''a'' 100 (addTimer_v3 ''a'' [])"
  let ?ys = "startTimer_v2 ''a'' 1000 (addTimer_v2 ''a'' [])"
  let ?xs = "startTimer_v1 ''a'' 100 (addTimer_v1 ''a'' [])"
  have zs: "?zs = [(addTimer_v3 ''a'' [] ! 0)\<lparr>running := True, startTs := Some 100\<rparr>]"
    by (simp add: startTimer_v3_def startTimer_v3_step_def addTimer_v3_def)
  have ys: "?ys = [(addTimer_v2 ''a'' [] ! 0)\<lparr>running := True, startTs := Some 1000\<rparr>]"
    by (simp add: startTimer_v2_def startTimer_v2_step_def addTimer_v2_def)
  have xs: "?xs = [(addTimer_v1 ''a'' [] ! 0)\<lparr>running := True, startTs := Some 100\<rparr>]"
    by (simp add: startTimer_v1_def startTimer_v1_step_def addTimer_v1_def)
  have fl: "\<lfloor>3 / 2 :: rat\<rfloor> = 1"
    by (simp add: floor_eq_iff)
  show ?thesis
    using export_net [where zs = ?zs and ys = ?ys and xs = ?xs and k = 0 and nowSec = 105
        and now_ms = 2500] fl
    unfolding zs ys xs
    by (simp add: addTimer_v1_def addTimer_v2_def addTimer_v3_def net_formula_def
        net_formula_ms_def)
qed

text \<open>
  The first variant one second after a start, at its first tick: the exported row carries 1
  where the formula of the specification gives 2. The second variant after a run of one
  and a half seconds: the row carries 1 where the formula gives 3/2.
\<close>

theorem export_net_counterexample:
  "exportCSV_v1 (fst (run step_v1 [(100, StartTimer ''a''), (101, Tick)] (addTimer_v1 ''a'' [])))
     ! 1 ! 1 = CNum 1
   \<and> net_formula 101
     (fst (run step_v1 [(100, StartTimer ''a''), (101, Tick)] (addTimer_v1 ''a'' [])) ! 0) = 2
   \<and> exportCSV_v2 2500 (startTimer_v2 ''a'' 1000 (addTimer_v2 ''a'' [])) ! 1 ! 11 = CNum 1
   \<and> net_formula_ms 2500 (startTimer_v2 ''a'' 1000 (addTimer_v2 ''a'' []) ! 0) = 3 / 2"
proof -
  have fl: "\<lfloor>3 / 2 :: rat\<rfloor> = 1"
    by (simp add: floor_eq_iff)
  show ?thesis
    using fl
    by (simp add: startTimer_v1_def startTimer_v1_step_def addTimer_v1_def timerLoop_v1_def
        timerLoop_v1_step_def exportCSV_v1_def net_formula_def
        startTimer_v2_def startTimer_v2_step_def addTimer_v2_def exportCSV_v2_def
        net_formula_ms_def)
qed

section \<open>Pause\<close>

text \<open>
  C6. In each of the three implementations, pausing a running timer (the timer of the list
  whose id is given) adds \<open>now - startTs\<close> to \<open>elapsedSec\<close>, clears \<open>startTs\<close> and sets
  \<open>running\<close> to false; pausing a timer that is not running leaves it unchanged. The start
  timestamp is a reading of the clock, so it is not 0. In the second variant the timestamps
  are milliseconds, so the difference is divided by 1000; there \<open>elapsedSec\<close> is not
  negative and the clock is not behind \<open>startTs\<close>, as in every state the operations reach
  under a clock that does not go back.
\<close>

theorem pause_materializes:
  fixes xs zs :: "int timer list" and ys :: "rat timer list"
  shows
   "(k < length xs \<and> ident (xs ! k) = i \<and> running (xs ! k)
       \<and> startTs (xs ! k) = Some s \<and> s \<noteq> 0 \<longrightarrow>
     pauseTimer_v1 i now xs ! k =
       (xs ! k)\<lparr>running := False, startTs := None,
                elapsedSec := elapsedSec (xs ! k) + (now - s)\<rparr>)
  \<and> (k < length xs \<and> \<not> running (xs ! k) \<longrightarrow> pauseTimer_v1 i now xs ! k = xs ! k)
  \<and> (k < length ys \<and> ident (ys ! k) = i \<and> running (ys ! k)
       \<and> startTs (ys ! k) = Some ms \<and> ms \<noteq> 0 \<and> 0 \<le> elapsedSec (ys ! k) \<and> ms \<le> now_ms \<longrightarrow>
     pauseTimer_v2 i now_ms ys ! k =
       (ys ! k)\<lparr>running := False, startTs := None,
                elapsedSec := elapsedSec (ys ! k) + (now_ms - ms) / 1000\<rparr>)
  \<and> (k < length ys \<and> \<not> running (ys ! k) \<longrightarrow> pauseTimer_v2 i now_ms ys ! k = ys ! k)
  \<and> (k < length zs \<and> ident (zs ! k) = i \<and> running (zs ! k)
       \<and> startTs (zs ! k) = Some s \<and> s \<noteq> 0 \<longrightarrow>
     pauseTimer_v3 i now zs ! k =
       (zs ! k)\<lparr>running := False, startTs := None,
                elapsedSec := elapsedSec (zs ! k) + (now - s)\<rparr>)
  \<and> (k < length zs \<and> \<not> running (zs ! k) \<longrightarrow> pauseTimer_v3 i now zs ! k = zs ! k)"
  by (simp add: pauseTimer_v1_def pauseTimer_v2_def pauseTimer_v3_def
      pauseTimer_v1_step_def pauseTimer_v2_step_def pauseTimer_v3_step_def max_def)

theorem pause_materializes_witness:
  "pauseTimer_v1 ''a'' 130 (startTimer_v1 ''a'' 100 (addTimer_v1 ''a'' [])) ! 0 =
     (startTimer_v1 ''a'' 100 (addTimer_v1 ''a'' []) ! 0)
       \<lparr>running := False, startTs := None, elapsedSec := 30\<rparr>
   \<and> pauseTimer_v1 ''a'' 130 (addTimer_v1 ''a'' []) ! 0 = addTimer_v1 ''a'' [] ! 0
   \<and> pauseTimer_v2 ''a'' 2500 (startTimer_v2 ''a'' 1000 (addTimer_v2 ''a'' [])) ! 0 =
     (startTimer_v2 ''a'' 1000 (addTimer_v2 ''a'' []) ! 0)
       \<lparr>running := False, startTs := None, elapsedSec := 3 / 2\<rparr>
   \<and> pauseTimer_v2 ''a'' 2500 (addTimer_v2 ''a'' []) ! 0 = addTimer_v2 ''a'' [] ! 0
   \<and> pauseTimer_v3 ''a'' 130 (startTimer_v3 ''a'' 100 (addTimer_v3 ''a'' [])) ! 0 =
     (startTimer_v3 ''a'' 100 (addTimer_v3 ''a'' []) ! 0)
       \<lparr>running := False, startTs := None, elapsedSec := 30\<rparr>
   \<and> pauseTimer_v3 ''a'' 130 (addTimer_v3 ''a'' []) ! 0 = addTimer_v3 ''a'' [] ! 0"
  using
    pause_materializes [where k = 0 and i = "''a''" and s = 100 and now = 130
      and ms = 1000 and now_ms = 2500
      and xs = "startTimer_v1 ''a'' 100 (addTimer_v1 ''a'' [])"
      and ys = "startTimer_v2 ''a'' 1000 (addTimer_v2 ''a'' [])"
      and zs = "startTimer_v3 ''a'' 100 (addTimer_v3 ''a'' [])"]
    pause_materializes [where k = 0 and i = "''a''" and s = 100 and now = 130
      and ms = 1000 and now_ms = 2500
      and xs = "addTimer_v1 ''a'' []" and ys = "addTimer_v2 ''a'' []"
      and zs = "addTimer_v3 ''a'' []"]
  by (simp add: startTimer_v1_def startTimer_v1_step_def addTimer_v1_def
      startTimer_v2_def startTimer_v2_step_def addTimer_v2_def
      startTimer_v3_def startTimer_v3_step_def addTimer_v3_def)

section \<open>Start\<close>

text \<open>
  C7. In each of the three implementations, starting a timer that is not running (the timer
  of the list whose id is given) sets \<open>running\<close> to true and \<open>startTs\<close> to \<open>now\<close>. The first
  variant leaves every other timer as it is. The second and third are single-focus: every
  other timer that is running is stopped, its run \<open>now - startTs\<close> first added to its
  \<open>elapsedSec\<close>, then \<open>running\<close> and \<open>startTs\<close> cleared. The start timestamp of the other
  timer is a reading of the clock, so it is not 0; in the second variant the timestamps are
  milliseconds, \<open>elapsedSec\<close> is not negative and the clock is not behind \<open>startTs\<close>.
\<close>

theorem start_effect:
  fixes xs zs :: "int timer list" and ys :: "rat timer list"
  shows
   "(k < length xs \<and> ident (xs ! k) = i \<and> \<not> running (xs ! k) \<longrightarrow>
       startTimer_v1 i now xs ! k = (xs ! k)\<lparr>running := True, startTs := Some now\<rparr>)
  \<and> (j < length xs \<and> ident (xs ! j) \<noteq> i \<longrightarrow> startTimer_v1 i now xs ! j = xs ! j)
  \<and> (k < length ys \<and> ident (ys ! k) = i \<and> \<not> running (ys ! k) \<longrightarrow>
       startTimer_v2 i now_ms ys ! k = (ys ! k)\<lparr>running := True, startTs := Some now_ms\<rparr>)
  \<and> (j < length ys \<and> ident (ys ! j) \<noteq> i \<and> running (ys ! j)
       \<and> startTs (ys ! j) = Some ms \<and> ms \<noteq> 0 \<and> 0 \<le> elapsedSec (ys ! j) \<and> ms \<le> now_ms \<longrightarrow>
       startTimer_v2 i now_ms ys ! j =
         (ys ! j)\<lparr>running := False, startTs := None,
                  elapsedSec := elapsedSec (ys ! j) + (now_ms - ms) / 1000\<rparr>)
  \<and> (k < length zs \<and> ident (zs ! k) = i \<and> \<not> running (zs ! k) \<longrightarrow>
       startTimer_v3 i now zs ! k = (zs ! k)\<lparr>running := True, startTs := Some now\<rparr>)
  \<and> (j < length zs \<and> ident (zs ! j) \<noteq> i \<and> running (zs ! j)
       \<and> startTs (zs ! j) = Some s \<and> s \<noteq> 0 \<longrightarrow>
       startTimer_v3 i now zs ! j =
         (zs ! j)\<lparr>running := False, startTs := None,
                  elapsedSec := elapsedSec (zs ! j) + (now - s)\<rparr>)"
  by (simp add: startTimer_v1_def startTimer_v2_def startTimer_v3_def
      startTimer_v1_step_def startTimer_v2_step_def startTimer_v3_step_def max_def)

theorem start_effect_witness:
  "startTimer_v1 ''b'' 130 (startTimer_v1 ''a'' 100 (addTimer_v1 ''b'' (addTimer_v1 ''a'' []))) =
     [(addTimer_v1 ''a'' [] ! 0)\<lparr>running := True, startTs := Some 100\<rparr>,
      (addTimer_v1 ''b'' (addTimer_v1 ''a'' []) ! 1)\<lparr>running := True, startTs := Some 130\<rparr>]
   \<and> startTimer_v2 ''b'' 2500 (startTimer_v2 ''a'' 1000 (addTimer_v2 ''b'' (addTimer_v2 ''a'' []))) =
     [(addTimer_v2 ''b'' (addTimer_v2 ''a'' []) ! 0)\<lparr>running := True, startTs := Some 2500\<rparr>,
      (addTimer_v2 ''a'' [] ! 0)\<lparr>running := False, startTs := None, elapsedSec := 3 / 2\<rparr>]
   \<and> startTimer_v3 ''b'' 130 (startTimer_v3 ''a'' 100 (addTimer_v3 ''b'' (addTimer_v3 ''a'' []))) =
     [(addTimer_v3 ''a'' [] ! 0)\<lparr>running := False, startTs := None, elapsedSec := 30\<rparr>,
      (addTimer_v3 ''b'' (addTimer_v3 ''a'' []) ! 1)\<lparr>running := True, startTs := Some 130\<rparr>]"
proof -
  let ?p1 = "startTimer_v1 ''a'' 100 (addTimer_v1 ''b'' (addTimer_v1 ''a'' []))"
  let ?p2 = "startTimer_v2 ''a'' 1000 (addTimer_v2 ''b'' (addTimer_v2 ''a'' []))"
  let ?p3 = "startTimer_v3 ''a'' 100 (addTimer_v3 ''b'' (addTimer_v3 ''a'' []))"
  have p1: "?p1 = [(addTimer_v1 ''a'' [] ! 0)\<lparr>running := True, startTs := Some 100\<rparr>,
                   addTimer_v1 ''b'' (addTimer_v1 ''a'' []) ! 1]"
    by (simp add: startTimer_v1_def startTimer_v1_step_def addTimer_v1_def)
  have p2: "?p2 = [addTimer_v2 ''b'' (addTimer_v2 ''a'' []) ! 0,
                   (addTimer_v2 ''a'' [] ! 0)\<lparr>running := True, startTs := Some 1000\<rparr>]"
    by (simp add: startTimer_v2_def startTimer_v2_step_def addTimer_v2_def)
  have p3: "?p3 = [(addTimer_v3 ''a'' [] ! 0)\<lparr>running := True, startTs := Some 100\<rparr>,
                   addTimer_v3 ''b'' (addTimer_v3 ''a'' []) ! 1]"
    by (simp add: startTimer_v3_def startTimer_v3_step_def addTimer_v3_def)
  have len: "length (startTimer_v1 ''b'' 130 ?p1) = 2" "length (startTimer_v2 ''b'' 2500 ?p2) = 2"
    "length (startTimer_v3 ''b'' 130 ?p3) = 2"
    by (simp_all add: startTimer_v1_def startTimer_v2_def startTimer_v3_def
        addTimer_v1_def addTimer_v2_def addTimer_v3_def)
  note a = start_effect [where k = 1 and j = 0 and i = "''b''" and xs = ?p1 and ys = ?p2
      and zs = ?p3 and now = 130 and now_ms = 2500 and s = 100 and ms = 1000]
  note b = start_effect [where k = 0 and j = 1 and i = "''b''" and xs = ?p1 and ys = ?p2
      and zs = ?p3 and now = 130 and now_ms = 2500 and s = 100 and ms = 1000]
  have "startTimer_v1 ''b'' 130 ?p1 ! 0 =
       (addTimer_v1 ''a'' [] ! 0)\<lparr>running := True, startTs := Some 100\<rparr>"
    "startTimer_v1 ''b'' 130 ?p1 ! 1 =
       (addTimer_v1 ''b'' (addTimer_v1 ''a'' []) ! 1)\<lparr>running := True, startTs := Some 130\<rparr>"
    "startTimer_v2 ''b'' 2500 ?p2 ! 0 =
       (addTimer_v2 ''b'' (addTimer_v2 ''a'' []) ! 0)\<lparr>running := True, startTs := Some 2500\<rparr>"
    "startTimer_v2 ''b'' 2500 ?p2 ! 1 =
       (addTimer_v2 ''a'' [] ! 0)\<lparr>running := False, startTs := None, elapsedSec := 3 / 2\<rparr>"
    "startTimer_v3 ''b'' 130 ?p3 ! 0 =
       (addTimer_v3 ''a'' [] ! 0)\<lparr>running := False, startTs := None, elapsedSec := 30\<rparr>"
    "startTimer_v3 ''b'' 130 ?p3 ! 1 =
       (addTimer_v3 ''b'' (addTimer_v3 ''a'' []) ! 1)\<lparr>running := True, startTs := Some 130\<rparr>"
    using a b unfolding p1 p2 p3
    by (simp_all add: addTimer_v1_def addTimer_v2_def addTimer_v3_def)
  then show ?thesis
    using len by (simp add: list_eq_iff_nth_eq less_Suc_eq numeral_2_eq_2)
qed

section \<open>Two runs\<close>

lemma run_append:
  "fst (run step (evs @ evs') s) = fst (run step evs' (fst (run step evs s)))"
  by (induction evs arbitrary: s) (auto simp: split_beta)

text \<open>The tick of the second and third implementations changes nothing but the goal flag.\<close>

lemma goalCheck_v3_fields:
  assumes "k < length ts"
  shows "length (fst (goalCheck_v3 now ts)) = length ts"
    and "elapsedSec (fst (goalCheck_v3 now ts) ! k) = elapsedSec (ts ! k)"
    and "startTs (fst (goalCheck_v3 now ts) ! k) = startTs (ts ! k)"
    and "running (fst (goalCheck_v3 now ts) ! k) = running (ts ! k)"
    and "ident (fst (goalCheck_v3 now ts) ! k) = ident (ts ! k)"
  using assms by (simp_all add: goalCheck_v3_def goalCheck_v3_step_def Let_def)

lemma goalChecker_v2_fields:
  assumes "k < length ts"
  shows "length (fst (goalChecker_v2 now ts)) = length ts"
    and "elapsedSec (fst (goalChecker_v2 now ts) ! k) = elapsedSec (ts ! k)"
    and "startTs (fst (goalChecker_v2 now ts) ! k) = startTs (ts ! k)"
    and "running (fst (goalChecker_v2 now ts) ! k) = running (ts ! k)"
    and "ident (fst (goalChecker_v2 now ts) ! k) = ident (ts ! k)"
  using assms by (simp_all add: goalChecker_v2_def goalChecker_v2_step_def Let_def)

lemma ticks_v3_fields:
  assumes "ticks_only evs" and "k < length ts"
  shows "length (fst (run step_v3 evs ts)) = length ts
    \<and> elapsedSec (fst (run step_v3 evs ts) ! k) = elapsedSec (ts ! k)
    \<and> startTs (fst (run step_v3 evs ts) ! k) = startTs (ts ! k)
    \<and> running (fst (run step_v3 evs ts) ! k) = running (ts ! k)
    \<and> ident (fst (run step_v3 evs ts) ! k) = ident (ts ! k)"
  using assms
proof (induction evs arbitrary: ts)
  case Nil
  then show ?case by simp
next
  case (Cons e evs)
  obtain now where e: "e = (now, Tick)"
    using Cons.prems(1) by (cases e) (simp add: ticks_only_def)
  have "ticks_only evs"
    using Cons.prems(1) by (simp add: ticks_only_def)
  moreover have "k < length (fst (goalCheck_v3 now ts))"
    using Cons.prems(2) by (simp add: goalCheck_v3_fields)
  ultimately show ?case
    using Cons.IH [of "fst (goalCheck_v3 now ts)"] Cons.prems(2)
    by (simp add: e split_beta goalCheck_v3_fields)
qed

lemma ticks_v2_fields:
  assumes "ticks_only_v2 evs" and "k < length ts"
  shows "length (fst (run step_v2 evs ts)) = length ts
    \<and> elapsedSec (fst (run step_v2 evs ts) ! k) = elapsedSec (ts ! k)
    \<and> startTs (fst (run step_v2 evs ts) ! k) = startTs (ts ! k)
    \<and> running (fst (run step_v2 evs ts) ! k) = running (ts ! k)
    \<and> ident (fst (run step_v2 evs ts) ! k) = ident (ts ! k)"
  using assms
proof (induction evs arbitrary: ts)
  case Nil
  then show ?case by simp
next
  case (Cons e evs)
  obtain now where e: "e = (now, Tick2)"
    using Cons.prems(1) by (cases e) (simp add: ticks_only_v2_def)
  have "ticks_only_v2 evs"
    using Cons.prems(1) by (simp add: ticks_only_v2_def)
  moreover have "k < length (fst (goalChecker_v2 now ts))"
    using Cons.prems(2) by (simp add: goalChecker_v2_fields)
  ultimately show ?case
    using Cons.IH [of "fst (goalChecker_v2 now ts)"] Cons.prems(2)
    by (simp add: e split_beta goalChecker_v2_fields)
qed

text \<open>One run, from a start to the pause that ends it, with ticks before and in between.\<close>

lemma one_run_v3:
  fixes t1 t2 :: int
  assumes "ticks_only ev0" "ticks_only ev1" "k < length ts"
    and "ident (ts ! k) = i" "\<not> running (ts ! k)" "t1 \<noteq> 0"
  defines "r \<equiv> fst (run step_v3 (ev0 @ (t1, StartTimer i) # ev1 @ [(t2, PauseTimer i)]) ts)"
  shows "length r = length ts \<and> ident (r ! k) = i \<and> \<not> running (r ! k)
    \<and> elapsedSec (r ! k) = elapsedSec (ts ! k) + (t2 - t1)"
proof -
  define a where "a = fst (run step_v3 ev0 ts)"
  define b where "b = startTimer_v3 i t1 a"
  define c where "c = fst (run step_v3 ev1 b)"
  have r: "r = pauseTimer_v3 i t2 c"
    by (simp add: r_def run_append split_beta a_def b_def c_def)
  have a: "length a = length ts" "elapsedSec (a ! k) = elapsedSec (ts ! k)"
    "\<not> running (a ! k)" "ident (a ! k) = i"
    using ticks_v3_fields [OF assms(1,3)] assms(4,5) by (simp_all add: a_def)
  have b: "length b = length ts" "elapsedSec (b ! k) = elapsedSec (ts ! k)"
    "running (b ! k)" "ident (b ! k) = i" "startTs (b ! k) = Some t1"
    using a assms(3) by (simp_all add: b_def startTimer_v3_def startTimer_v3_step_def)
  have c: "length c = length ts" "elapsedSec (c ! k) = elapsedSec (ts ! k)"
    "running (c ! k)" "ident (c ! k) = i" "startTs (c ! k) = Some t1"
    using ticks_v3_fields [OF assms(2), of k b] b assms(3) by (simp_all add: c_def)
  show ?thesis
    using c assms(3,6) by (simp add: r pauseTimer_v3_def pauseTimer_v3_step_def)
qed

lemma one_run_v2:
  fixes t1 t2 :: rat
  assumes "ticks_only_v2 ev0" "ticks_only_v2 ev1" "k < length ts"
    and "ident (ts ! k) = i" "\<not> running (ts ! k)" "t1 \<noteq> 0"
    and "0 \<le> elapsedSec (ts ! k)" "t1 \<le> t2"
  defines "r \<equiv> fst (run step_v2 (ev0 @ (t1, StartTimer2 i) # ev1 @ [(t2, PauseTimer2 i)]) ts)"
  shows "length r = length ts \<and> ident (r ! k) = i \<and> \<not> running (r ! k)
    \<and> elapsedSec (r ! k) = elapsedSec (ts ! k) + (t2 - t1) / 1000"
proof -
  define a where "a = fst (run step_v2 ev0 ts)"
  define b where "b = startTimer_v2 i t1 a"
  define c where "c = fst (run step_v2 ev1 b)"
  have r: "r = pauseTimer_v2 i t2 c"
    by (simp add: r_def run_append split_beta a_def b_def c_def)
  have a: "length a = length ts" "elapsedSec (a ! k) = elapsedSec (ts ! k)"
    "\<not> running (a ! k)" "ident (a ! k) = i"
    using ticks_v2_fields [OF assms(1,3)] assms(4,5) by (simp_all add: a_def)
  have b: "length b = length ts" "elapsedSec (b ! k) = elapsedSec (ts ! k)"
    "running (b ! k)" "ident (b ! k) = i" "startTs (b ! k) = Some t1"
    using a assms(3) by (simp_all add: b_def startTimer_v2_def startTimer_v2_step_def)
  have c: "length c = length ts" "elapsedSec (c ! k) = elapsedSec (ts ! k)"
    "running (c ! k)" "ident (c ! k) = i" "startTs (c ! k) = Some t1"
    using ticks_v2_fields [OF assms(2), of k b] b assms(3) by (simp_all add: c_def)
  show ?thesis
    using c assms(3,6,7,8) by (simp add: r pauseTimer_v2_def pauseTimer_v2_step_def max_def)
qed

text \<open>
  In the third and the second implementation two runs add up exactly, whatever ticks come
  before, during and between them; so they do in the first variant when no tick comes.
\<close>

lemma two_runs_v3:
  assumes "ticks_only ev0" "ticks_only ev1" "ticks_only ev2" "ticks_only ev3"
    and "k < length ts" "ident (ts ! k) = i" "\<not> running (ts ! k)" "t1 \<noteq> 0" "t3 \<noteq> 0"
  shows "elapsedSec (fst (run step_v3
      ((ev0 @ (t1, StartTimer i) # ev1 @ [(t2, PauseTimer i)])
       @ (ev2 @ (t3, StartTimer i) # ev3 @ [(t4, PauseTimer i)])) ts) ! k) =
    elapsedSec (ts ! k) + (t2 - t1) + (t4 - t3)"
proof -
  let ?r = "fst (run step_v3 (ev0 @ (t1, StartTimer i) # ev1 @ [(t2, PauseTimer i)]) ts)"
  have first: "length ?r = length ts \<and> ident (?r ! k) = i \<and> \<not> running (?r ! k)
    \<and> elapsedSec (?r ! k) = elapsedSec (ts ! k) + (t2 - t1)"
    using assms by (intro one_run_v3) simp_all
  then have "k < length ?r" "ident (?r ! k) = i" "\<not> running (?r ! k)"
    using assms(5) by simp_all
  from one_run_v3 [OF assms(3,4) this assms(9), of t4] first show ?thesis
    by (simp only: run_append)
qed

lemma two_runs_v2:
  assumes "ticks_only_v2 ev0" "ticks_only_v2 ev1" "ticks_only_v2 ev2" "ticks_only_v2 ev3"
    and "k < length ts" "ident (ts ! k) = i" "\<not> running (ts ! k)" "t1 \<noteq> 0" "t3 \<noteq> 0"
    and "0 \<le> elapsedSec (ts ! k)" "t1 \<le> t2" "t3 \<le> t4"
  shows "elapsedSec (fst (run step_v2
      ((ev0 @ (t1, StartTimer2 i) # ev1 @ [(t2, PauseTimer2 i)])
       @ (ev2 @ (t3, StartTimer2 i) # ev3 @ [(t4, PauseTimer2 i)])) ts) ! k) =
    elapsedSec (ts ! k) + (t2 - t1) / 1000 + (t4 - t3) / 1000"
proof -
  let ?r = "fst (run step_v2 (ev0 @ (t1, StartTimer2 i) # ev1 @ [(t2, PauseTimer2 i)]) ts)"
  have first: "length ?r = length ts \<and> ident (?r ! k) = i \<and> \<not> running (?r ! k)
    \<and> elapsedSec (?r ! k) = elapsedSec (ts ! k) + (t2 - t1) / 1000"
    using assms by (intro one_run_v2) simp_all
  then have k: "k < length ?r" "ident (?r ! k) = i" "\<not> running (?r ! k)"
    using assms(5) by simp_all
  have "0 \<le> elapsedSec (?r ! k)"
    using first assms(10,11) by simp
  from one_run_v2 [OF assms(3,4) k assms(9) this assms(12)] first show ?thesis
    by (simp only: run_append)
qed

lemma two_runs_v1_no_tick:
  assumes "k < length ts" "ident (ts ! k) = i" "\<not> running (ts ! k)" "t1 \<noteq> 0" "t3 \<noteq> 0"
  shows "elapsedSec (fst (run step_v1
      [(t1, StartTimer i), (t2, PauseTimer i), (t3, StartTimer i), (t4, PauseTimer i)] ts) ! k) =
    elapsedSec (ts ! k) + (t2 - t1) + (t4 - t3)"
  using assms
  by (simp add: startTimer_v1_def startTimer_v1_step_def pauseTimer_v1_def
      pauseTimer_v1_step_def)

text \<open>
  C8 fails in the first variant once the timer loop runs. A new timer is started at 100,
  the loop ticks at 101, the timer is paused at 102, started again at 200 and paused at 201.
  The two runs last 2 and 1 seconds, so the claim has \<open>elapsedSec\<close> grow by 3; the code
  leaves 4. The tick adds the run since \<open>startTs\<close> to \<open>elapsedSec\<close> without moving \<open>startTs\<close>,
  and the pause adds the whole run again.
\<close>

theorem two_runs_overcounted_v1:
  "elapsedSec (addTimer_v1 ''a'' [] ! 0) = 0
   \<and> elapsedSec (fst (run step_v1
       [(100, StartTimer ''a''), (101, Tick), (102, PauseTimer ''a''),
        (200, StartTimer ''a''), (201, PauseTimer ''a'')] (addTimer_v1 ''a'' [])) ! 0) = 4
   \<and> elapsedSec (fst (run step_v1
       [(100, StartTimer ''a''), (102, PauseTimer ''a''),
        (200, StartTimer ''a''), (201, PauseTimer ''a'')] (addTimer_v1 ''a'' [])) ! 0) = 3
   \<and> elapsedSec (fst (run step_v3
       [(100, StartTimer ''a''), (101, Tick), (102, PauseTimer ''a''),
        (200, StartTimer ''a''), (201, PauseTimer ''a'')] (addTimer_v3 ''a'' [])) ! 0) = 3"
  by (simp add: startTimer_v1_def startTimer_v1_step_def pauseTimer_v1_def
      pauseTimer_v1_step_def addTimer_v1_def timerLoop_v1_def timerLoop_v1_step_def
      startTimer_v3_def startTimer_v3_step_def pauseTimer_v3_def
      pauseTimer_v3_step_def addTimer_v3_def goalCheck_v3_def goalCheck_v3_step_def)

theorem two_runs_overcounted_v1_witness:
  "elapsedSec (fst (run step_v1
       [(100, StartTimer ''a''), (101, Tick), (102, PauseTimer ''a''),
        (200, StartTimer ''a''), (201, PauseTimer ''a'')] (addTimer_v1 ''a'' [])) ! 0)
     \<noteq> (102 - 100) + (201 - 200)"
  using two_runs_overcounted_v1 by simp

section \<open>Net seconds over a run\<close>

text \<open>
  A run under a clock that does not go back: the readings are in order and lie between
  \<open>now1\<close> and \<open>now2\<close>. If every operation of the run keeps the timer at position \<open>k\<close> started
  by the current reading and does not lower its net seconds, and the net seconds of an
  untouched timer do not go down with the clock, then the net seconds at \<open>now2\<close> after the
  run are at least those at \<open>now1\<close> before it.
\<close>

lemma run_monotone:
  fixes now1 now2 :: "'n::linordered_idom" and net :: "'n \<Rightarrow> 't \<Rightarrow> 'n"
  assumes step: "\<And>t0 t a ts. acc a \<Longrightarrow> k < length ts \<Longrightarrow> ok t0 (ts ! k) \<Longrightarrow> t0 \<le> t \<Longrightarrow> 0 < t0 \<Longrightarrow>
      k < length (fst (step t a ts)) \<and> ok t (fst (step t a ts) ! k)
      \<and> net t0 (ts ! k) \<le> net t (fst (step t a ts) ! k)"
    and idle: "\<And>t0 t x. ok t0 x \<Longrightarrow> t0 \<le> t \<Longrightarrow> net t0 x \<le> net t x"
    and "list_all (\<lambda>e. acc (snd e)) evs" "sorted (map fst evs)"
    and "\<forall>t\<in>set (map fst evs). now1 \<le> t \<and> t \<le> now2"
    and "0 < now1" "now1 \<le> now2" "k < length ts" "ok now1 (ts ! k)"
  shows "k < length (fst (run step evs ts))
    \<and> net now1 (ts ! k) \<le> net now2 (fst (run step evs ts) ! k)"
  using assms(3-)
proof (induction evs arbitrary: ts now1)
  case Nil
  then show ?case
    using idle by simp
next
  case (Cons e evs)
  obtain t a where e: "e = (t, a)" by (cases e)
  have t: "now1 \<le> t" "t \<le> now2" "acc a"
    using Cons.prems(1,3) by (simp_all add: e)
  let ?ts = "fst (step t a ts)"
  have s: "k < length ?ts" "ok t (?ts ! k)" "net now1 (ts ! k) \<le> net t (?ts ! k)"
    using step [OF t(3) Cons.prems(6,7) t(1) Cons.prems(4)] by simp_all
  have "k < length (fst (run step evs ?ts))
    \<and> net t (?ts ! k) \<le> net now2 (fst (run step evs ?ts) ! k)"
  proof (rule Cons.IH)
    show "list_all (\<lambda>e. acc (snd e)) evs" "sorted (map fst evs)"
      using Cons.prems(1,2) by simp_all
    show "\<forall>t'\<in>set (map fst evs). t \<le> t' \<and> t' \<le> now2"
      using Cons.prems(2,3) by (auto simp: e)
    show "0 < t" "t \<le> now2"
      using Cons.prems(4) t by simp_all
  qed (rule s)+
  then show ?case
    using s(3) by (simp add: e split_beta)
qed

lemma net_formula_idle:
  assumes "started_by t0 x" and "t0 \<le> t"
  shows "net_formula t0 x \<le> net_formula t x"
  using assms by (cases "startTs x") (simp_all add: net_formula_def started_by_def max_def)

lemma timerNetSeconds_Some:
  assumes "startTs x = Some s" and "s \<noteq> 0"
  shows "timerNetSeconds now x =
    max 0 (elapsedSec x + (if running x then (now - s) / 1000 else 0) - revisionSec x)"
  using assms by (simp add: timerNetSeconds_def)

lemma timerNetSeconds_None:
  assumes "startTs x = None"
  shows "timerNetSeconds now x = max 0 (elapsedSec x - revisionSec x)"
  using assms by (simp add: timerNetSeconds_def)

lemma timerNetSeconds_idle:
  assumes "started_by t0 x" and "t0 \<le> t"
  shows "timerNetSeconds t0 x \<le> timerNetSeconds t x"
proof (cases "startTs x")
  case None
  then show ?thesis by (simp add: timerNetSeconds_None)
next
  case (Some s)
  obtain p where p: "(t0 - s) / 1000 = p" by blast
  obtain q where q: "(t - s) / 1000 = q" by blast
  have "p \<le> q"
    using assms(2) by (simp add: p [symmetric] q [symmetric] divide_right_mono)
  moreover have "s \<noteq> 0"
    using assms(1) Some by (simp add: started_by_def)
  ultimately show ?thesis
    using Some by (simp add: timerNetSeconds_Some p q max_def)
qed

lemma timer_step_v3_mono:
  fixes x :: "int timer"
  assumes "started_by t0 x" "t0 \<le> t" "0 < t0"
  shows "started_by t (startTimer_v3_step i t x)
      \<and> net_formula t0 x \<le> net_formula t (startTimer_v3_step i t x)"
    and "started_by t (pauseTimer_v3_step i t x)
      \<and> net_formula t0 x \<le> net_formula t (pauseTimer_v3_step i t x)"
    and "started_by t (fst (goalCheck_v3_step t x))
      \<and> net_formula t0 x \<le> net_formula t (fst (goalCheck_v3_step t x))"
  using assms
  by (cases "startTs x";
      simp add: startTimer_v3_step_def pauseTimer_v3_step_def goalCheck_v3_step_def
        started_by_def net_formula_def Let_def max_def)+

lemma timer_step_v1_mono:
  fixes x :: "int timer"
  assumes "started_by t0 x" "t0 \<le> t" "0 < t0"
  shows "started_by t (startTimer_v1_step i t x)
      \<and> netSeconds_v1 x \<le> netSeconds_v1 (startTimer_v1_step i t x)"
    and "started_by t (pauseTimer_v1_step i t x)
      \<and> netSeconds_v1 x \<le> netSeconds_v1 (pauseTimer_v1_step i t x)"
    and "started_by t (fst (timerLoop_v1_step t x))
      \<and> netSeconds_v1 x \<le> netSeconds_v1 (fst (timerLoop_v1_step t x))"
  using assms
  by (cases "startTs x";
      simp add: startTimer_v1_step_def pauseTimer_v1_step_def timerLoop_v1_step_def
        started_by_def netSeconds_v1_def Let_def max_def)+

lemma timer_step_v1_formula_mono:
  fixes x :: "int timer"
  assumes "started_by t0 x" "t0 \<le> t" "0 < t0"
  shows "net_formula t0 x \<le> net_formula t (startTimer_v1_step i t x)"
    and "net_formula t0 x \<le> net_formula t (pauseTimer_v1_step i t x)"
    and "net_formula t0 x \<le> net_formula t (fst (timerLoop_v1_step t x))"
  using assms
  by (cases "startTs x";
      simp add: startTimer_v1_step_def pauseTimer_v1_step_def timerLoop_v1_step_def
        started_by_def net_formula_def Let_def max_def)+

lemma timer_step_v2_mono:
  fixes x :: "rat timer"
  assumes "started_by t0 x" "t0 \<le> t" "0 < t0"
  shows "started_by t (startTimer_v2_step i t x)
      \<and> timerNetSeconds t0 x \<le> timerNetSeconds t (startTimer_v2_step i t x)"
    and "started_by t (pauseTimer_v2_step i t x)
      \<and> timerNetSeconds t0 x \<le> timerNetSeconds t (pauseTimer_v2_step i t x)"
    and "started_by t (fst (goalChecker_v2_step t x))
      \<and> timerNetSeconds t0 x \<le> timerNetSeconds t (fst (goalChecker_v2_step t x))"
proof -
  have t: "0 < t" "t \<noteq> 0"
    using assms(2,3) by simp_all
  have goal: "started_by t (fst (goalChecker_v2_step t x))
      \<and> timerNetSeconds t0 x \<le> timerNetSeconds t (fst (goalChecker_v2_step t x))"
  proof -
    have "started_by t (x\<lparr>goalFired := True\<rparr>) = started_by t x"
      "timerNetSeconds t (x\<lparr>goalFired := True\<rparr>) = timerNetSeconds t x"
      by (simp_all add: started_by_def timerNetSeconds_def)
    moreover have "started_by t x"
      using assms(1,2) by (cases "startTs x") (simp_all add: started_by_def)
    ultimately show ?thesis
      using timerNetSeconds_idle [OF assms(1,2)] by (simp add: goalChecker_v2_step_def Let_def)
  qed
  show "started_by t (startTimer_v2_step i t x)
      \<and> timerNetSeconds t0 x \<le> timerNetSeconds t (startTimer_v2_step i t x)"
    "started_by t (pauseTimer_v2_step i t x)
      \<and> timerNetSeconds t0 x \<le> timerNetSeconds t (pauseTimer_v2_step i t x)"
  proof (atomize (full), cases "startTs x")
    case None
    then show "(started_by t (startTimer_v2_step i t x)
      \<and> timerNetSeconds t0 x \<le> timerNetSeconds t (startTimer_v2_step i t x))
      \<and> (started_by t (pauseTimer_v2_step i t x)
      \<and> timerNetSeconds t0 x \<le> timerNetSeconds t (pauseTimer_v2_step i t x))"
      using t
      by (simp add: startTimer_v2_step_def pauseTimer_v2_step_def started_by_def
          timerNetSeconds_def max_def)
  next
    case (Some s)
    obtain p where p: "(t0 - s) / 1000 = p" by blast
    obtain q where q: "(t - s) / 1000 = q" by blast
    have pq: "p \<le> q"
      using assms(2) by (simp add: p [symmetric] q [symmetric] divide_right_mono)
    have s: "0 < s" "s \<noteq> 0" "s \<le> t"
      using assms(1,2) Some by (simp_all add: started_by_def)
    show "(started_by t (startTimer_v2_step i t x)
      \<and> timerNetSeconds t0 x \<le> timerNetSeconds t (startTimer_v2_step i t x))
      \<and> (started_by t (pauseTimer_v2_step i t x)
      \<and> timerNetSeconds t0 x \<le> timerNetSeconds t (pauseTimer_v2_step i t x))"
      using Some s t pq
      by (simp add: startTimer_v2_step_def pauseTimer_v2_step_def started_by_def
          timerNetSeconds_def p q max_def)
  qed
  show "started_by t (fst (goalChecker_v2_step t x))
      \<and> timerNetSeconds t0 x \<le> timerNetSeconds t (fst (goalChecker_v2_step t x))"
    by (rule goal)
qed

lemma setter_mono:
  assumes "started_by t0 x" "t0 \<le> t"
  shows "started_by t (x\<lparr>color := c\<rparr>) \<and> started_by t (x\<lparr>targetSec := g\<rparr>)
    \<and> started_by t (x\<lparr>name := n\<rparr>) \<and> started_by t (x\<lparr>goalOn := b\<rparr>)
    \<and> started_by t (x\<lparr>category := c\<rparr>) \<and> started_by t x"
  using assms by (cases "startTs x") (simp_all add: started_by_def)

lemma net_setters [simp]:
  "net_formula t (x\<lparr>color := c\<rparr>) = net_formula t x"
  "net_formula t (x\<lparr>targetSec := g\<rparr>) = net_formula t x"
  "net_formula t (x\<lparr>name := n\<rparr>) = net_formula t x"
  "net_formula t (x\<lparr>goalOn := b\<rparr>) = net_formula t x"
  "net_formula t (x\<lparr>category := c\<rparr>) = net_formula t x"
  "netSeconds_v1 (y\<lparr>color := c\<rparr>) = netSeconds_v1 y"
  "netSeconds_v1 (y\<lparr>targetSec := g'\<rparr>) = netSeconds_v1 y"
  "netSeconds_v1 (y\<lparr>name := n\<rparr>) = netSeconds_v1 y"
  "netSeconds_v1 (y\<lparr>goalOn := b\<rparr>) = netSeconds_v1 y"
  "netSeconds_v1 (y\<lparr>category := c\<rparr>) = netSeconds_v1 y"
  by (auto simp: net_formula_def netSeconds_v1_def)

lemma step_v3_mono:
  assumes "accumulating a" "k < length ts" "started_by t0 (ts ! k)" "t0 \<le> t" "0 < t0"
  shows "k < length (fst (step_v3 t a ts)) \<and> started_by t (fst (step_v3 t a ts) ! k)
    \<and> net_formula t0 (ts ! k) \<le> net_formula t (fst (step_v3 t a ts) ! k)"
  using assms timer_step_v3_mono [OF assms(3-5)] setter_mono [OF assms(3,4)]
    net_formula_idle [OF assms(3,4)]
  by (cases a) (simp_all add: list_ops)

lemma step_v1_mono:
  assumes "accumulating a" "k < length ts" "started_by t0 (ts ! k)" "t0 \<le> t" "0 < t0"
  shows "k < length (fst (step_v1 t a ts)) \<and> started_by t (fst (step_v1 t a ts) ! k)
    \<and> netSeconds_v1 (ts ! k) \<le> netSeconds_v1 (fst (step_v1 t a ts) ! k)"
  using assms timer_step_v1_mono [OF assms(3-5)] setter_mono [OF assms(3,4)]
  by (cases a) (simp_all add: list_ops)

lemma step_v1_formula_mono:
  assumes "accumulating a" "k < length ts" "started_by t0 (ts ! k)" "t0 \<le> t" "0 < t0"
  shows "k < length (fst (step_v1 t a ts)) \<and> started_by t (fst (step_v1 t a ts) ! k)
    \<and> net_formula t0 (ts ! k) \<le> net_formula t (fst (step_v1 t a ts) ! k)"
  using assms timer_step_v1_mono [OF assms(3-5)] timer_step_v1_formula_mono [OF assms(3-5)]
    setter_mono [OF assms(3,4)] net_formula_idle [OF assms(3,4)]
  by (cases a) (simp_all add: list_ops)

lemma step_v2_mono:
  assumes "accumulating_v2 a" "k < length ts" "started_by t0 (ts ! k)" "t0 \<le> t" "0 < t0"
  shows "k < length (fst (step_v2 t a ts)) \<and> started_by t (fst (step_v2 t a ts) ! k)
    \<and> timerNetSeconds t0 (ts ! k) \<le> timerNetSeconds t (fst (step_v2 t a ts) ! k)"
  using assms timer_step_v2_mono [OF assms(3-5)]
  by (cases a) (simp_all add: list_ops)

text \<open>
  Where the net seconds do not go down. Take a timer of the list, running or not, and two
  clock readings \<open>now1 \<le> now2\<close>. Between them starts and pauses of any timer and per-second
  ticks are applied (in the first variant and the third implementation also edits of
  name, target, goal, category and theme), at readings in order between \<open>now1\<close> and \<open>now2\<close>;
  the timer's start timestamp, if any, is a positive reading not later than \<open>now1\<close>. Then
  the timer's net seconds at \<open>now2\<close> after the operations are at least its net seconds at
  \<open>now1\<close> before them: the formula in the third implementation, \<open>timerNetSeconds\<close> in the
  second, and in the first variant both the value it shows, \<open>max(0, elapsedSec -
  revisionSec)\<close>, and the formula with the current run. The readings \<open>now1\<close> and \<open>now2\<close> at
  which the net seconds are taken are readings of the same clock as the operations'; the
  third implementation shows the net seconds at the polled \<open>nowSec\<close>, which can be behind
  that clock, and the second variant's editor save is not among the operations: see below.
\<close>

lemma net_accumulates:
  fixes xs zs :: "int timer list" and ys :: "rat timer list"
  shows
   "(list_all (\<lambda>e. accumulating (snd e)) evs \<and> sorted (map fst evs)
       \<and> (\<forall>t\<in>set (map fst evs). now1 \<le> t \<and> t \<le> now2)
       \<and> 0 < now1 \<and> now1 \<le> now2 \<and> k < length zs \<and> started_by now1 (zs ! k) \<longrightarrow>
     k < length (fst (run step_v3 evs zs))
     \<and> net_formula now1 (zs ! k) \<le> net_formula now2 (fst (run step_v3 evs zs) ! k))
  \<and> (list_all (\<lambda>e. accumulating_v2 (snd e)) evs_ms \<and> sorted (map fst evs_ms)
       \<and> (\<forall>t\<in>set (map fst evs_ms). ms1 \<le> t \<and> t \<le> ms2)
       \<and> 0 < ms1 \<and> ms1 \<le> ms2 \<and> k < length ys \<and> started_by ms1 (ys ! k) \<longrightarrow>
     k < length (fst (run step_v2 evs_ms ys))
     \<and> timerNetSeconds ms1 (ys ! k) \<le> timerNetSeconds ms2 (fst (run step_v2 evs_ms ys) ! k))
  \<and> (list_all (\<lambda>e. accumulating (snd e)) evs \<and> sorted (map fst evs)
       \<and> (\<forall>t\<in>set (map fst evs). now1 \<le> t \<and> t \<le> now2)
       \<and> 0 < now1 \<and> now1 \<le> now2 \<and> k < length xs \<and> started_by now1 (xs ! k) \<longrightarrow>
     k < length (fst (run step_v1 evs xs))
     \<and> netSeconds_v1 (xs ! k) \<le> netSeconds_v1 (fst (run step_v1 evs xs) ! k)
     \<and> net_formula now1 (xs ! k) \<le> net_formula now2 (fst (run step_v1 evs xs) ! k))"
proof (intro conjI impI; elim conjE)
  assume "list_all (\<lambda>e. accumulating (snd e)) evs" "sorted (map fst evs)"
    "\<forall>t\<in>set (map fst evs). now1 \<le> t \<and> t \<le> now2"
    "0 < now1" "now1 \<le> now2" "k < length zs" "started_by now1 (zs ! k)"
  then show "k < length (fst (run step_v3 evs zs))"
    "net_formula now1 (zs ! k) \<le> net_formula now2 (fst (run step_v3 evs zs) ! k)"
    using run_monotone [where step = step_v3 and acc = accumulating and ok = started_by
        and net = net_formula and k = k and evs = evs and ts = zs and ?now1.0 = now1
        and ?now2.0 = now2, OF step_v3_mono net_formula_idle]
    by simp_all
next
  assume "list_all (\<lambda>e. accumulating_v2 (snd e)) evs_ms" "sorted (map fst evs_ms)"
    "\<forall>t\<in>set (map fst evs_ms). ms1 \<le> t \<and> t \<le> ms2"
    "0 < ms1" "ms1 \<le> ms2" "k < length ys" "started_by ms1 (ys ! k)"
  then show "k < length (fst (run step_v2 evs_ms ys))"
    "timerNetSeconds ms1 (ys ! k) \<le> timerNetSeconds ms2 (fst (run step_v2 evs_ms ys) ! k)"
    using run_monotone [where step = step_v2 and acc = accumulating_v2 and ok = started_by
        and net = timerNetSeconds and k = k and evs = evs_ms and ts = ys and ?now1.0 = ms1
        and ?now2.0 = ms2, OF step_v2_mono timerNetSeconds_idle]
    by simp_all
next
  assume "list_all (\<lambda>e. accumulating (snd e)) evs" "sorted (map fst evs)"
    "\<forall>t\<in>set (map fst evs). now1 \<le> t \<and> t \<le> now2"
    "0 < now1" "now1 \<le> now2" "k < length xs" "started_by now1 (xs ! k)"
  then show "k < length (fst (run step_v1 evs xs))"
    "netSeconds_v1 (xs ! k) \<le> netSeconds_v1 (fst (run step_v1 evs xs) ! k)"
    "net_formula now1 (xs ! k) \<le> net_formula now2 (fst (run step_v1 evs xs) ! k)"
    using run_monotone [where step = step_v1 and acc = accumulating and ok = started_by
        and net = "\<lambda>t. netSeconds_v1" and k = k and evs = evs and ts = xs and ?now1.0 = now1
        and ?now2.0 = now2, OF step_v1_mono]
      run_monotone [where step = step_v1 and acc = accumulating and ok = started_by
        and net = net_formula and k = k and evs = evs and ts = xs and ?now1.0 = now1
        and ?now2.0 = now2, OF step_v1_formula_mono net_formula_idle]
    by simp_all
qed

text \<open>
  C9 fails in the third implementation. The cards show the net seconds at the polled
  \<open>nowSec\<close>, while \<^verbatim>\<open>startTimer\<close> stamps \<open>startTs\<close> with its own reading of the clock. A new
  timer is started at 90; at the poll of second 100 its card shows 10. It is paused in
  second 100 (the card still shows 10) and started again in second 101, before the next
  poll: \<open>startTs\<close> is 101, \<open>nowSec\<close> is still 100, and the card shows 9. At the poll of second
  101 it shows 10 again. No adjustment is in the run.

  It fails in the second variant too, through the editor's save, which writes back the
  copy of the timer taken when the editor was opened. The editor is open on a new timer
  when the timer is started at 1000 ms; at 101000 ms the net seconds are 100; the save at
  101000 ms, of a new name, makes the timer what it was at opening, and the net seconds
  are 0.
\<close>

theorem net_drops_without_adjust:
  "map (cardNet_v3 100 (fst (run step_v3
        [(0, AddTimer ''a''), (90, StartTimer ''a''), (100, Tick)] [])))
     (fst (run step_v3
        [(0, AddTimer ''a''), (90, StartTimer ''a''), (100, Tick)] [])) = [10]
   \<and> map running (fst (run step_v3
        [(0, AddTimer ''a''), (90, StartTimer ''a''), (100, Tick)] [])) = [True]
   \<and> map (cardNet_v3 100 (fst (run step_v3
        [(0, AddTimer ''a''), (90, StartTimer ''a''), (100, Tick), (100, PauseTimer ''a'')] [])))
     (fst (run step_v3
        [(0, AddTimer ''a''), (90, StartTimer ''a''), (100, Tick), (100, PauseTimer ''a'')] [])) = [10]
   \<and> map (cardNet_v3 100 (fst (run step_v3
        [(0, AddTimer ''a''), (90, StartTimer ''a''), (100, Tick), (100, PauseTimer ''a''),
         (101, StartTimer ''a'')] [])))
     (fst (run step_v3
        [(0, AddTimer ''a''), (90, StartTimer ''a''), (100, Tick), (100, PauseTimer ''a''),
         (101, StartTimer ''a'')] [])) = [9]
   \<and> map running (fst (run step_v3
        [(0, AddTimer ''a''), (90, StartTimer ''a''), (100, Tick), (100, PauseTimer ''a''),
         (101, StartTimer ''a'')] [])) = [True]
   \<and> map (cardNet_v3 101 (fst (run step_v3
        [(0, AddTimer ''a''), (90, StartTimer ''a''), (100, Tick), (100, PauseTimer ''a''),
         (101, StartTimer ''a''), (101, Tick)] [])))
     (fst (run step_v3
        [(0, AddTimer ''a''), (90, StartTimer ''a''), (100, Tick), (100, PauseTimer ''a''),
         (101, StartTimer ''a''), (101, Tick)] [])) = [10]
   \<and> map running (fst (run step_v2
        [(500, AddTimer2 ''a''), (1000, StartTimer2 ''a'')] [])) = [True]
   \<and> map (timerNetSeconds 101000) (fst (run step_v2
        [(500, AddTimer2 ''a''), (1000, StartTimer2 ''a'')] [])) = [100]
   \<and> map (timerNetSeconds 101000) (fst (run step_v2
        [(500, AddTimer2 ''a''), (1000, StartTimer2 ''a''),
         (101000, ApplyPatch2 ''a''
            (TimerEditor_save ((addTimer_v2 ''a'' [] ! 0)\<lparr>name := ''Reading''\<rparr>) 0 0))] [])) = [0]"
proof -
  let ?n = "\<lparr>ident = ''a'', name = ''New Timer'', targetSec = 0, revisionSec = 0,
       elapsedSec = 0, startTs = None, running = False, goalOn = False,
       goalFired = False, category = ''neutral'',
       color = ''from-slate-400/20 to-slate-700/20'', sort_index = 0,
       deleted = False\<rparr>"
  let ?a = "\<lparr>ident = ''a'', name = ''New Timer'', targetSec = 0, revisionSec = 0,
       elapsedSec = 0, startTs = Some 90, running = True, goalOn = False,
       goalFired = False, category = ''neutral'',
       color = ''from-slate-400/20 to-slate-700/20'', sort_index = 0,
       deleted = False\<rparr>"
  let ?b = "\<lparr>ident = ''a'', name = ''New Timer'', targetSec = 0, revisionSec = 0,
       elapsedSec = 10, startTs = None, running = False, goalOn = False,
       goalFired = False, category = ''neutral'',
       color = ''from-slate-400/20 to-slate-700/20'', sort_index = 0,
       deleted = False\<rparr>"
  let ?c = "\<lparr>ident = ''a'', name = ''New Timer'', targetSec = 0, revisionSec = 0,
       elapsedSec = 10, startTs = Some 101, running = True, goalOn = False,
       goalFired = False, category = ''neutral'',
       color = ''from-slate-400/20 to-slate-700/20'', sort_index = 0,
       deleted = False\<rparr>"
  let ?m = "\<lparr>ident = ''a'', name = ''New Timer'', targetSec = 0, revisionSec = 0,
       elapsedSec = 0, startTs = None, running = False, goalOn = False,
       goalFired = False, category = ''neutral'',
       color = ''from-violet-500/30 to-fuchsia-500/30'', sort_index = 0,
       deleted = False\<rparr>"
  let ?p = "\<lparr>ident = ''a'', name = ''New Timer'', targetSec = 0, revisionSec = 0,
       elapsedSec = 0, startTs = Some 1000, running = True, goalOn = False,
       goalFired = False, category = ''neutral'',
       color = ''from-violet-500/30 to-fuchsia-500/30'', sort_index = 0,
       deleted = False\<rparr>"
  let ?q = "\<lparr>ident = ''a'', name = ''Reading'', targetSec = 0, revisionSec = 0,
       elapsedSec = 0, startTs = None, running = False, goalOn = False,
       goalFired = False, category = ''neutral'',
       color = ''from-violet-500/30 to-fuchsia-500/30'', sort_index = 0,
       deleted = False\<rparr>"
  have s: "startTimer_v3 ''a'' 90 (addTimer_v3 ''a'' []) = [?a]"
    by (simp add: addTimer_v3_def startTimer_v3_def startTimer_v3_step_def)
  have t: "goalCheck_v3 100 [?a] = ([?a], [])" "goalCheck_v3 101 [?c] = ([?c], [])"
    by (simp_all add: goalCheck_v3_def goalCheck_v3_step_def List.map_filter_def)
  have u: "pauseTimer_v3 ''a'' 100 [?a] = [?b]"
    by (simp add: pauseTimer_v3_def pauseTimer_v3_step_def orElse_def)
  have v: "startTimer_v3 ''a'' 101 [?b] = [?c]"
    by (simp add: startTimer_v3_def startTimer_v3_step_def)
  have A: "fst (run step_v3
        [(0, AddTimer ''a''), (90, StartTimer ''a''), (100, Tick)] []) = [?a]"
    by (simp add: s t)
  have B: "fst (run step_v3
        [(0, AddTimer ''a''), (90, StartTimer ''a''), (100, Tick), (100, PauseTimer ''a'')] []) = [?b]"
    by (simp add: s t u)
  have C: "fst (run step_v3
        [(0, AddTimer ''a''), (90, StartTimer ''a''), (100, Tick), (100, PauseTimer ''a''),
         (101, StartTimer ''a'')] []) = [?c]"
    by (simp add: s t u v)
  have D: "fst (run step_v3
        [(0, AddTimer ''a''), (90, StartTimer ''a''), (100, Tick), (100, PauseTimer ''a''),
         (101, StartTimer ''a''), (101, Tick)] []) = [?c]"
    by (simp add: s t u v)
  have cards: "cardNet_v3 100 [?a] ?a = 10" "cardNet_v3 100 [?b] ?b = 10"
    "cardNet_v3 100 [?c] ?c = 9" "cardNet_v3 101 [?c] ?c = 10"
    by (simp_all add: cardNet_v3_def totals_v3_def orElse_def or0_def)
  have m: "addTimer_v2 ''a'' [] = [?m]"
    by (simp add: addTimer_v2_def)
  have e: "TimerEditor_save ((addTimer_v2 ''a'' [] ! 0)\<lparr>name := ''Reading''\<rparr>) 0 0 = ?q"
    by (simp add: m TimerEditor_save_def clamp_def)
  have P: "fst (run step_v2
        [(500, AddTimer2 ''a''), (1000, StartTimer2 ''a'')] []) = [?p]"
    by (simp add: m startTimer_v2_def startTimer_v2_step_def)
  have Q: "fst (run step_v2
        [(500, AddTimer2 ''a''), (1000, StartTimer2 ''a''),
        (101000, ApplyPatch2 ''a''
           (TimerEditor_save ((addTimer_v2 ''a'' [] ! 0)\<lparr>name := ''Reading''\<rparr>) 0 0))] []) = [?q]"
    unfolding e by (simp add: m startTimer_v2_def startTimer_v2_step_def applyPatch_def)
  have nets: "timerNetSeconds 101000 ?p = 100" "timerNetSeconds 101000 ?q = 0"
    by (simp_all add: timerNetSeconds_def truthy_def or0_def)
  show ?thesis
    unfolding A B C D P Q by (simp add: cards nets)
qed

theorem net_drops_without_adjust_witness:
  "hd (map (cardNet_v3 100 (fst (run step_v3
        [(0, AddTimer ''a''), (90, StartTimer ''a''), (100, Tick), (100, PauseTimer ''a''),
         (101, StartTimer ''a'')] [])))
     (fst (run step_v3
        [(0, AddTimer ''a''), (90, StartTimer ''a''), (100, Tick), (100, PauseTimer ''a''),
         (101, StartTimer ''a'')] [])))
   < hd (map (cardNet_v3 100 (fst (run step_v3
        [(0, AddTimer ''a''), (90, StartTimer ''a''), (100, Tick)] [])))
     (fst (run step_v3
        [(0, AddTimer ''a''), (90, StartTimer ''a''), (100, Tick)] [])))"
  using net_drops_without_adjust by simp

section \<open>Running exactly when started\<close>

lemma run_preserves:
  assumes "I s"
    and "\<And>now a s. (now, a) \<in> set evs \<Longrightarrow> I s \<Longrightarrow> I (fst (step now a s))"
  shows "I (fst (run step evs s))"
  using assms
proof (induction evs arbitrary: s)
  case Nil
  then show ?case by simp
next
  case (Cons e evs)
  obtain now a where e: "e = (now, a)" by (cases e)
  have "I (fst (step now a s))"
    using Cons.prems e by simp
  then have "I (fst (run step evs (fst (step now a s))))"
    using Cons.prems(2) by (intro Cons.IH) simp_all
  then show ?case
    by (simp add: e split_beta)
qed

lemma consistent_timer_step:
  fixes t :: "int timer" and u :: "rat timer"
  shows "consistent t \<Longrightarrow> consistent (startTimer_v1_step i now t)"
    and "consistent t \<Longrightarrow> consistent (pauseTimer_v1_step i now t)"
    and "consistent t \<Longrightarrow> consistent (adjustTimer_v1_step i d t)"
    and "consistent t \<Longrightarrow> consistent (fst (timerLoop_v1_step now t))"
    and "consistent u \<Longrightarrow> consistent (startTimer_v2_step i now_ms u)"
    and "consistent u \<Longrightarrow> consistent (pauseTimer_v2_step i now_ms u)"
    and "consistent u \<Longrightarrow> consistent (adjustTimer_v2_step i dr now_ms u)"
    and "consistent u \<Longrightarrow> consistent (fst (goalChecker_v2_step now_ms u))"
    and "consistent t \<Longrightarrow> consistent (startTimer_v3_step i now t)"
    and "consistent t \<Longrightarrow> consistent (pauseTimer_v3_step i now t)"
    and "consistent t \<Longrightarrow> consistent (adjustTimer_v3_step i d now t)"
    and "consistent t \<Longrightarrow> consistent (fst (goalCheck_v3_step now t))"
  by (simp_all add: consistent_def timer_steps Let_def)

lemma consistent_reset_fields: "consistent (reset_fields t)"
  by (simp add: consistent_def reset_fields_def)

lemma consistent_step_v1:
  assumes "list_all consistent ts"
  shows "list_all consistent (fst (step_v1 now a ts))"
  using assms
  by (cases a)
    (auto simp: list_all_iff list_ops consistent_timer_step consistent_reset_fields,
     auto simp: consistent_def)

lemma consistent_step_v2:
  assumes "list_all consistent ts" and "patch_consistent a"
  shows "list_all consistent (fst (step_v2 now a ts))"
  using assms
  by (cases a)
    (auto simp: list_all_iff list_ops consistent_timer_step consistent_reset_fields,
     auto simp: consistent_def)

lemma consistent_step_v3:
  assumes "list_all consistent ts"
  shows "list_all consistent (fst (step_v3 now a ts))"
  using assms
  by (cases a)
    (auto simp: list_all_iff list_ops consistent_timer_step consistent_reset_fields,
     auto simp: consistent_def)

text \<open>
  C10. A timer is consistent when \<open>running\<close> is true exactly when \<open>startTs\<close> is not null.
  In each of the three implementations the default timers are consistent, and every local
  operation (start, pause, reset, reset of the day, adjust, adding a timer, which creates a
  consistent one, the per-second tick and goal check, and also removal and the setters)
  keeps every timer of the list consistent, in one step and along any run. In the second
  variant the editor's save writes back a copy of a timer; it keeps consistency when the
  copy is consistent.
\<close>

theorem consistent_preserved:
  fixes xs zs :: "int timer list" and ys :: "rat timer list"
  shows
   "list_all consistent (DEFAULT_TIMERS_v1 uid)
  \<and> list_all consistent (DEFAULT_TIMERS_v2 uid)
  \<and> list_all consistent (DEFAULT_TIMERS_v3 uid)
  \<and> (list_all consistent xs \<longrightarrow>
       list_all consistent (fst (step_v1 now a xs))
       \<and> list_all consistent (fst (run step_v1 evs xs)))
  \<and> (list_all consistent ys \<and> patch_consistent b \<longrightarrow>
       list_all consistent (fst (step_v2 now_ms b ys)))
  \<and> (list_all consistent ys \<and> list_all (\<lambda>e. patch_consistent (snd e)) evs_ms \<longrightarrow>
       list_all consistent (fst (run step_v2 evs_ms ys)))
  \<and> (list_all consistent zs \<longrightarrow>
       list_all consistent (fst (step_v3 now a zs))
       \<and> list_all consistent (fst (run step_v3 evs zs)))"
proof -
  have d: "list_all consistent (DEFAULT_TIMERS_v1 uid)"
    "list_all consistent (DEFAULT_TIMERS_v2 uid)"
    "list_all consistent (DEFAULT_TIMERS_v3 uid)"
    by (simp_all add: DEFAULT_TIMERS_v1_def DEFAULT_TIMERS_v2_def DEFAULT_TIMERS_v3_def
        consistent_def)
  have r1: "list_all consistent (fst (run step_v1 evs xs))" if "list_all consistent xs"
    using that by (rule run_preserves) (rule consistent_step_v1)
  have r3: "list_all consistent (fst (run step_v3 evs zs))" if "list_all consistent zs"
    using that by (rule run_preserves) (rule consistent_step_v3)
  have r2: "list_all consistent (fst (run step_v2 evs_ms ys))"
    if "list_all consistent ys" and p: "list_all (\<lambda>e. patch_consistent (snd e)) evs_ms"
    using that(1)
  proof (rule run_preserves)
    fix now' b' and s :: "rat timer list"
    assume "(now', b') \<in> set evs_ms" and "list_all consistent s"
    then show "list_all consistent (fst (step_v2 now' b' s))"
      using p by (intro consistent_step_v2) (auto simp: list_all_iff)
  qed
  show ?thesis
    using d r1 r2 r3 by (simp add: consistent_step_v1 consistent_step_v2 consistent_step_v3)
qed

theorem consistent_preserved_witness:
  "list_all consistent (addTimer_v1 ''a'' [])
   \<and> list_all consistent (fst (step_v1 100 (StartTimer ''a'') (addTimer_v1 ''a'' [])))
   \<and> list_all consistent
       (fst (run step_v1
          [(100, StartTimer ''a''), (101, Tick), (130, AdjustTimer ''a'' (- 60)),
           (140, PauseTimer ''a''), (150, ResetDay)] (addTimer_v1 ''a'' [])))
   \<and> list_all consistent (addTimer_v2 ''a'' [])
   \<and> list_all consistent (fst (step_v2 1000 (StartTimer2 ''a'') (addTimer_v2 ''a'' [])))
   \<and> list_all consistent
       (fst (run step_v2
          [(1000, StartTimer2 ''a''), (2000, Tick2), (2500, AdjustTimer2 ''a'' 60),
           (3000, ApplyPatch2 ''a'' (addTimer_v2 ''a'' [] ! 0)), (4000, PauseTimer2 ''a'')]
          (addTimer_v2 ''a'' [])))
   \<and> list_all consistent (addTimer_v3 ''a'' [])
   \<and> list_all consistent (fst (step_v3 100 (StartTimer ''a'') (addTimer_v3 ''a'' [])))
   \<and> list_all consistent
       (fst (run step_v3
          [(100, StartTimer ''a''), (101, Tick), (130, AdjustTimer ''a'' (- 60)),
           (140, PauseTimer ''a''), (150, ResetDay)] (addTimer_v3 ''a'' [])))"
proof -
  have a: "list_all consistent (addTimer_v1 ''a'' [])"
    "list_all consistent (addTimer_v2 ''a'' [])"
    "list_all consistent (addTimer_v3 ''a'' [])"
    "consistent (addTimer_v2 ''a'' [] ! 0)"
    by (simp_all add: addTimer_v1_def addTimer_v2_def addTimer_v3_def consistent_def)
  show ?thesis
    using a consistent_preserved [where xs = "addTimer_v1 ''a'' []"
        and ys = "addTimer_v2 ''a'' []" and zs = "addTimer_v3 ''a'' []"
        and now = 100 and a = "StartTimer ''a''" and now_ms = 1000 and b = "StartTimer2 ''a''"
        and evs = "[(100, StartTimer ''a''), (101, Tick), (130, AdjustTimer ''a'' (- 60)),
           (140, PauseTimer ''a''), (150, ResetDay)]"
        and evs_ms = "[(1000, StartTimer2 ''a''), (2000, Tick2), (2500, AdjustTimer2 ''a'' 60),
           (3000, ApplyPatch2 ''a'' (addTimer_v2 ''a'' [] ! 0)), (4000, PauseTimer2 ''a'')]"]
    by simp
qed

end
